theory Spec2Isabelle
  imports Main "HOL-Library.AList" "HOL-Library.Char_ord" "HOL-Library.List_Lexorder"
begin

section \<open>Values, statuses and exceptions\<close>

text \<open>
  \<open>constants.py\<close>: the enum \<open>STATUS(str, Enum)\<close> with its four members; the value of a
  member is the string of the same spelling.
\<close>

datatype STATUS = PENDING | RUNNING | SUCCESS | ERROR

fun STATUS_value :: "STATUS \<Rightarrow> string" where
  "STATUS_value PENDING = ''PENDING''"
| "STATUS_value RUNNING = ''RUNNING''"
| "STATUS_value SUCCESS = ''SUCCESS''"
| "STATUS_value ERROR = ''ERROR''"

text \<open>
  The values that \<open>json.load\<close> produces and \<open>json.dump\<close> accepts. An object is a Python
  dict: an association list in insertion order. Payloads returned by steps are values of
  this type as well. Floating point numbers are left out.
\<close>

datatype json =
    JNull
  | JBool bool
  | JInt int
  | JStr string
  | JArr "json list"
  | JObj "(string \<times> json) list"

text \<open>Python's truth value of such a value (\<open>if x and y\<close>).\<close>

fun truthy :: "json \<Rightarrow> bool" where
  "truthy JNull = False"
| "truthy (JBool b) = b"
| "truthy (JInt i) = (i \<noteq> 0)"
| "truthy (JStr s) = (s \<noteq> [])"
| "truthy (JArr xs) = (xs \<noteq> [])"
| "truthy (JObj kvs) = (kvs \<noteq> [])"

text \<open>
  Exceptions are values: the class and the text that \<open>str(e)\<close> gives. Every class below
  derives from \<open>Exception\<close>; \<open>Other\<close> stands for any further such class, by name.
\<close>

datatype exn_class =
    ValueError
  | KeyError
  | TypeError
  | AttributeError
  | FileNotFoundError
  | IsADirectoryError
  | NotADirectoryError
  | JSONDecodeError
  | Other string

datatype exn = Exn exn_class string

fun exn_cls :: "exn \<Rightarrow> exn_class" where
  "exn_cls (Exn c d) = c"

fun str_exn :: "exn \<Rightarrow> string" where
  "str_exn (Exn c d) = d"

text \<open>\<open>STATUS(x)\<close>: the member whose value is \<open>x\<close>, else \<open>ValueError\<close>.\<close>

fun STATUS_call :: "json \<Rightarrow> exn + STATUS" where
  "STATUS_call (JStr s) =
     (if s = ''PENDING'' then Inr PENDING
      else if s = ''RUNNING'' then Inr RUNNING
      else if s = ''SUCCESS'' then Inr SUCCESS
      else if s = ''ERROR'' then Inr ERROR
      else Inl (Exn ValueError (CHR 0x27 # s @ CHR 0x27 # '' is not a valid STATUS'')))"
| "STATUS_call j = Inl (Exn ValueError ''value is not a valid STATUS'')"

section \<open>StepResult (\<open>step.py\<close>)\<close>

text \<open>
  What a \<open>status\<close> attribute of a \<open>StepResult\<close> holds: a member of the enum, or, when the
  constructor was given something that is not a string, that value as it came.
\<close>

datatype status_attr = Member STATUS | Uncoerced json

record StepResult =
  sr_message :: json
  sr_status :: status_attr
  sr_data :: json

text \<open>
  The dataclass constructor followed by \<open>__post_init__\<close>: a string status goes through
  \<open>STATUS(...)\<close>, which raises on an unknown spelling; anything else is kept.
\<close>

fun StepResult_init :: "json \<Rightarrow> status_attr \<Rightarrow> json \<Rightarrow> exn + StepResult" where
  "StepResult_init m (Member s) d =
     Inr \<lparr>sr_message = m, sr_status = Member s, sr_data = d\<rparr>"
| "StepResult_init m (Uncoerced (JStr s)) d =
     (case STATUS_call (JStr s) of
        Inl e \<Rightarrow> Inl e
      | Inr st \<Rightarrow> Inr \<lparr>sr_message = m, sr_status = Member st, sr_data = d\<rparr>)"
| "StepResult_init m (Uncoerced j) d =
     Inr \<lparr>sr_message = m, sr_status = Uncoerced j, sr_data = d\<rparr>"

text \<open>\<open>StepResult()\<close>: message \<open>""\<close>, status PENDING, data \<open>{}\<close>.\<close>

definition StepResult_default :: StepResult where
  "StepResult_default = \<lparr>sr_message = JStr [], sr_status = Member PENDING, sr_data = JObj []\<rparr>"

text \<open>\<open>StepResult.to_dict\<close>; \<open>self.status.value\<close> exists on enum members only.\<close>

definition StepResult_to_dict :: "StepResult \<Rightarrow> exn + json" where
  "StepResult_to_dict sr =
     (case sr_status sr of
        Member s \<Rightarrow>
          Inr (JObj [(''message'', sr_message sr),
                     (''status'', JStr (STATUS_value s)),
                     (''data'', sr_data sr)])
      | Uncoerced j \<Rightarrow> Inl (Exn AttributeError ''object has no attribute value''))"

section \<open>TaskResult (\<open>task.py\<close>)\<close>

record TaskResult =
  task_type :: json
  status :: STATUS
  exit_message :: json
  data :: "(string \<times> StepResult) list"
  created_at :: json
  start_at :: json
  end_at :: json
  artifacts :: json

text \<open>
  The property \<open>exit_code\<close>: 1 for an empty \<open>data\<close>, else 1 exactly when every step
  result compares equal to \<open>STATUS.ERROR\<close>.
\<close>

definition exit_code :: "TaskResult \<Rightarrow> int" where
  "exit_code r =
     (if length (data r) = 0 then 1
      else if list_all (\<lambda>step_result. sr_status step_result = Member ERROR) (map snd (data r))
           then 1 else 0)"

section \<open>Step discovery (\<open>Task.__init__\<close>)\<close>

text \<open>
  What calling a member does: it returns a payload or raises an exception. The framework
  sees nothing else of a step body: it stores what the body returns and handles what it
  raises. A member of a class body is a method tagged by the \<open>step\<close> decorator, a plain
  callable, a \<open>MagicMock\<close> (callable, and \<open>hasattr\<close> is true of it for every name), or
  an attribute that is not callable.
\<close>

datatype outcome = Returns json | Raises exn

datatype member = Step outcome | Method outcome | Mock outcome | Attribute

record pyclass =
  class_name :: string
  body :: "(string \<times> member) list"

text \<open>
  The attributes \<open>__init__\<close> has set on the instance when \<open>dir(self)\<close> runs, the ones it
  sets afterwards, and the names that class \<open>Task\<close> itself declares (none of them tagged).
  The names every object inherits from \<open>object\<close> are never tagged either and are left out
  of the listing.
\<close>

definition attrs_before_dir :: "string list" where
  "attrs_before_dir = [''task_id'', ''logger'', ''is_executable'']"

definition attrs_after_dir :: "string list" where
  "attrs_after_dir = [''steps'', ''result'']"

definition Task_declared :: "string list" where
  "Task_declared = [''__init__'', ''load_from_file'', ''execute'', ''_execute_step'',
                    ''add_artifact'', ''save_result'']"

text \<open>
  \<open>getattr(self, name)\<close> for the names the framework looks up: an instance attribute
  hides the class; in the class body the last declaration of a name is the one bound.
\<close>

definition py_getattr :: "string list \<Rightarrow> pyclass \<Rightarrow> string \<Rightarrow> member option" where
  "py_getattr inst cls name =
     (if name \<in> set inst then Some Attribute else map_of (rev (body cls)) name)"

text \<open>\<open>dir(self)\<close>: the attribute names, each once, in sorted order.\<close>

definition py_dir :: "pyclass \<Rightarrow> string list" where
  "py_dir cls = sort (remdups (attrs_before_dir @ map fst (body cls) @ Task_declared))"

text \<open>
  The three tests of the list comprehension: \<open>callable(...)\<close>, \<open>hasattr(..., "is_step")\<close>,
  \<open>not isinstance(..., MagicMock)\<close>.
\<close>

fun is_step_member :: "member option \<Rightarrow> bool" where
  "is_step_member (Some (Step b)) = True"
| "is_step_member m = False"

definition discover_steps :: "pyclass \<Rightarrow> string list" where
  "discover_steps cls =
     filter (\<lambda>method. is_step_member (py_getattr attrs_before_dir cls method)) (py_dir cls)"

text \<open>The step-tagged method names of a class body, in the order of their declaration.\<close>

definition declared_steps :: "pyclass \<Rightarrow> string list" where
  "declared_steps cls = map fst (filter (\<lambda>(n, m). is_step_member (Some m)) (body cls))"

section \<open>Library functions and the file system\<close>

text \<open>
  The library code the repository calls is a parameter of the model: the JSON codec
  (\<open>json_loads\<close> is \<open>None\<close> where \<open>json.load\<close> raises \<open>JSONDecodeError\<close>),
  \<open>datetime.fromisoformat\<close> (\<open>None\<close> where it raises \<open>ValueError\<close>; a datetime is
  counted in microseconds) and \<open>timedelta.total_seconds\<close> of a difference.
\<close>

record lib =
  json_dumps :: "json \<Rightarrow> string"
  json_loads :: "string \<Rightarrow> json option"
  fromisoformat :: "string \<Rightarrow> int option"
  total_seconds :: "int \<Rightarrow> int \<Rightarrow> json"

text \<open>\<open>os.path.join\<close>, \<open>os.path.basename\<close>, \<open>str.removesuffix\<close> and \<open>file.split(".")[0]\<close>.\<close>

definition path_join :: "string \<Rightarrow> string \<Rightarrow> string" where
  "path_join a b =
     (if (case b of [] \<Rightarrow> False | c # cs \<Rightarrow> c = CHR ''/'') then b
      else if a = [] \<or> last a = CHR ''/'' then a @ b
      else a @ ''/'' @ b)"

definition basename :: "string \<Rightarrow> string" where
  "basename p = rev (takeWhile (\<lambda>c. c \<noteq> CHR ''/'') (rev p))"

definition removesuffix :: "string \<Rightarrow> string \<Rightarrow> string" where
  "removesuffix suf s =
     (if suf \<noteq> [] \<and> length suf \<le> length s \<and> drop (length s - length suf) s = suf
      then take (length s - length suf) s else s)"

definition split_dot_first :: "string \<Rightarrow> string" where
  "split_dot_first file = takeWhile (\<lambda>c. c \<noteq> CHR ''.'') file"

text \<open>
  The file system is a dict from path to the text of the file, as text-mode \<open>open\<close>
  presents it, in the order \<open>os.listdir\<close> reports the entries. Directories are implicit
  in the paths: a directory exists when some path begins with its name followed by a
  slash (a path that ends in a slash stands for a directory that may be empty). So
  \<open>os.makedirs\<close> with \<open>exist_ok=True\<close> changes nothing, and \<open>os.rename\<close> fails exactly when
  the source is absent.
\<close>

type_synonym fs = "(string \<times> string) list"

definition makedirs :: "string \<Rightarrow> fs \<Rightarrow> fs" where
  "makedirs p files = files"

definition path_exists :: "fs \<Rightarrow> string \<Rightarrow> bool" where
  "path_exists files p = (map_of files p \<noteq> None)"

definition rename :: "string \<Rightarrow> string \<Rightarrow> fs \<Rightarrow> exn + fs" where
  "rename src dst files =
     (case map_of files src of
        None \<Rightarrow> Inl (Exn FileNotFoundError (''[Errno 2] No such file or directory: '' @ src))
      | Some text \<Rightarrow> Inr (AList.update dst text (AList.delete src files)))"

definition strip_slashes :: "string \<Rightarrow> string" where
  "strip_slashes p = rev (dropWhile (\<lambda>c. c = CHR ''/'') (rev p))"

definition is_directory :: "fs \<Rightarrow> string \<Rightarrow> bool" where
  "is_directory files d =
     (d \<noteq> [] \<and> (\<exists>p \<in> set (map fst files). take (length (path_join d [])) p = path_join d []))"

text \<open>
  \<open>os.listdir\<close>: the names directly beneath the directory, files and sub-directories
  alike, each once; it raises when the path names a file or nothing at all.
\<close>

definition listdir :: "string \<Rightarrow> fs \<Rightarrow> exn + string list" where
  "listdir d files =
     (let pre = path_join d []
      in if map_of files (strip_slashes d) \<noteq> None
         then Inl (Exn NotADirectoryError (''[Errno 20] Not a directory: '' @ d))
         else if \<not> is_directory files d
         then Inl (Exn FileNotFoundError (''[Errno 2] No such file or directory: '' @ d))
         else Inr (remdups (filter (\<lambda>name. name \<noteq> [])
                    (map (\<lambda>p. takeWhile (\<lambda>c. c \<noteq> CHR ''/'') (drop (length pre) p))
                       (filter (\<lambda>p. take (length pre) p = pre) (map fst files))))))"

text \<open>\<open>file.readlines()\<close>: the text cut after every newline, the newlines kept.\<close>

fun readlines :: "string \<Rightarrow> string list" where
  "readlines [] = []"
| "readlines (c # cs) =
     (if c = CHR 0x0A then [c] # readlines cs
      else (case readlines cs of [] \<Rightarrow> [[c]] | l # ls \<Rightarrow> (c # l) # ls))"

section \<open>Python dicts and exceptions in sequence\<close>

text \<open>Sequencing of computations that may raise.\<close>

definition and_then :: "exn + 'a \<Rightarrow> ('a \<Rightarrow> exn + 'b) \<Rightarrow> exn + 'b" where
  "and_then r f = (case r of Inl e \<Rightarrow> Inl e | Inr x \<Rightarrow> f x)"

text \<open>
  A dict comprehension \<open>{k: f(v) for k, v in d.items()}\<close>: the items in order, each
  inserted into the dict built so far; the first \<open>f(v)\<close> that raises ends it.
\<close>

fun dict_comp :: "('v \<Rightarrow> exn + 'w) \<Rightarrow> (string \<times> 'v) list \<Rightarrow> (string \<times> 'w) list
    \<Rightarrow> exn + (string \<times> 'w) list" where
  "dict_comp f [] acc = Inr acc"
| "dict_comp f ((k, v) # kvs) acc =
     (case f v of Inl e \<Rightarrow> Inl e | Inr w \<Rightarrow> dict_comp f kvs (AList.update k w acc))"

text \<open>\<open>d[key]\<close>, \<open>d.get(key, default)\<close>, \<open>d.items()\<close> and \<open>a | b\<close> on a decoded value.\<close>

fun subscript :: "json \<Rightarrow> string \<Rightarrow> exn + json" where
  "subscript (JObj kvs) key =
     (case map_of kvs key of
        None \<Rightarrow> Inl (Exn KeyError (CHR 0x27 # key @ [CHR 0x27]))
      | Some v \<Rightarrow> Inr v)"
| "subscript j key = Inl (Exn TypeError ''value cannot be indexed with a str'')"

fun dict_get :: "json \<Rightarrow> string \<Rightarrow> json \<Rightarrow> exn + json" where
  "dict_get (JObj kvs) key dflt = Inr (case map_of kvs key of None \<Rightarrow> dflt | Some v \<Rightarrow> v)"
| "dict_get j key dflt = Inl (Exn AttributeError ''object has no attribute get'')"

fun dict_items :: "json \<Rightarrow> exn + (string \<times> json) list" where
  "dict_items (JObj kvs) = Inr kvs"
| "dict_items j = Inl (Exn AttributeError ''object has no attribute items'')"

definition dict_or :: "(string \<times> 'v) list \<Rightarrow> (string \<times> 'v) list \<Rightarrow> (string \<times> 'v) list" where
  "dict_or a b = foldl (\<lambda>d (k, v). AList.update k v d) a b"

section \<open>Serialising a result (\<open>TaskResult.duration\<close>, \<open>TaskResult.to_dict\<close>)\<close>

definition parse_iso :: "lib \<Rightarrow> json \<Rightarrow> exn + int" where
  "parse_iso L j =
     (case j of
        JStr s \<Rightarrow>
          (case fromisoformat L s of
             None \<Rightarrow> Inl (Exn ValueError (''Invalid isoformat string: '' @ s))
           | Some t \<Rightarrow> Inr t)
      | _ \<Rightarrow> Inl (Exn TypeError ''fromisoformat: argument must be str''))"

definition duration :: "lib \<Rightarrow> TaskResult \<Rightarrow> exn + json" where
  "duration L r =
     (if truthy (start_at r) \<and> truthy (end_at r)
      then and_then (parse_iso L (end_at r)) (\<lambda>e.
           and_then (parse_iso L (start_at r)) (\<lambda>s.
           Inr (total_seconds L e s)))
      else Inr JNull)"

definition to_dict :: "lib \<Rightarrow> TaskResult \<Rightarrow> exn + json" where
  "to_dict L r =
     and_then (dict_comp StepResult_to_dict (data r) []) (\<lambda>steps_dict.
     and_then (duration L r) (\<lambda>dur.
     Inr (JObj [(''task_type'', task_type r),
                (''status'', JStr (STATUS_value (status r))),
                (''exit_code'', JInt (exit_code r)),
                (''exit_message'', exit_message r),
                (''data'', JObj steps_dict),
                (''created_at'', created_at r),
                (''start_at'', start_at r),
                (''end_at'', end_at r),
                (''duration'', dur),
                (''artifacts'', artifacts r)])))"

section \<open>Task (\<open>task.py\<close>)\<close>

text \<open>
  A task instance: its attributes, its class, the records its logger has emitted, and
  \<open>invoked\<close>, the names of the steps whose body has been called, in call order (an
  observation of the run, not an attribute of the Python object).
\<close>

datatype log_record = Info string | Error string

record Task =
  task_id :: string
  is_executable :: bool
  steps :: "string list"
  result :: TaskResult
  cls :: pyclass
  logged :: "log_record list"
  invoked :: "string list"

definition log :: "log_record \<Rightarrow> Task \<Rightarrow> Task" where
  "log entry t = t\<lparr>logged := logged t @ [entry]\<rparr>"

text \<open>
  \<open>Task.__init__\<close>; \<open>uuid\<close> is the text of \<open>uuid.uuid4()\<close> and \<open>now\<close> that of
  \<open>datetime.now().isoformat()\<close>.
\<close>

definition Task_init :: "string \<Rightarrow> string \<Rightarrow> pyclass \<Rightarrow> Task" where
  "Task_init uuid now c =
     \<lparr>task_id = ''task-'' @ uuid,
      is_executable = True,
      steps = discover_steps c,
      result =
        \<lparr>task_type = JStr (class_name c),
         status = PENDING,
         exit_message = JNull,
         data = foldl (\<lambda>d step. AList.update step StepResult_default d) [] (discover_steps c),
         created_at = JStr now,
         start_at = JNull,
         end_at = JNull,
         artifacts = JObj []\<rparr>,
      cls = c,
      logged = [],
      invoked = []\<rparr>"

text \<open>The class \<open>Task\<close> itself declares no step.\<close>

definition Task_class :: pyclass where
  "Task_class = \<lparr>class_name = ''Task'', body = []\<rparr>"

text \<open>Calling what \<open>getattr\<close> returned.\<close>

fun call_member :: "member \<Rightarrow> outcome" where
  "call_member (Step b) = b"
| "call_member (Method b) = b"
| "call_member (Mock b) = b"
| "call_member Attribute = Raises (Exn TypeError ''object is not callable'')"

text \<open>Assignments to \<open>self.result.data[step_name].status\<close> and \<open>.data\<close>.\<close>

definition set_step_status :: "string \<Rightarrow> STATUS \<Rightarrow> Task \<Rightarrow> Task" where
  "set_step_status step_name s t =
     t\<lparr>result := (result t)\<lparr>data :=
         AList.map_entry step_name (\<lambda>sr. sr\<lparr>sr_status := Member s\<rparr>) (data (result t))\<rparr>\<rparr>"

definition set_step_data :: "string \<Rightarrow> json \<Rightarrow> Task \<Rightarrow> Task" where
  "set_step_data step_name v t =
     t\<lparr>result := (result t)\<lparr>data :=
         AList.map_entry step_name (\<lambda>sr. sr\<lparr>sr_data := v\<rparr>) (data (result t))\<rparr>\<rparr>"

text \<open>
  \<open>Task._execute_step\<close>. The result is the exception that leaves the method, if any,
  and the task as the method left it.
\<close>

definition execute_step :: "Task \<Rightarrow> string \<Rightarrow> member \<Rightarrow> exn option \<times> Task" where
  "execute_step t step_name step_func =
     (let t1 = log (Info (''Starting step '' @ step_name)) t
      in case map_of (data (result t1)) step_name of
           None \<Rightarrow> (Some (Exn KeyError (CHR 0x27 # step_name @ [CHR 0x27])), t1)
         | Some sr \<Rightarrow>
             (let t2 = set_step_status step_name RUNNING t1;
                  t3 = t2\<lparr>invoked := invoked t2 @ [step_name]\<rparr>
              in case call_member step_func of
                   Returns v \<Rightarrow>
                     (None,
                      log (Info (''Step '' @ step_name @ '' finished successfully''))
                        (set_step_status step_name SUCCESS (set_step_data step_name v t3)))
                 | Raises e \<Rightarrow>
                     (Some e,
                      log (Error (''Step '' @ step_name @ '' failed: '' @ str_exn e))
                        (set_step_status step_name ERROR t3))))"

text \<open>The \<open>for\<close> loop of \<open>execute\<close>: it ends at the first exception.\<close>

fun run_steps :: "Task \<Rightarrow> string list \<Rightarrow> exn option \<times> Task" where
  "run_steps t [] = (None, t)"
| "run_steps t (step_name # rest) =
     (case py_getattr (attrs_before_dir @ attrs_after_dir) (cls t) step_name of
        None \<Rightarrow> (Some (Exn AttributeError (''object has no attribute '' @ step_name)), t)
      | Some step_func \<Rightarrow>
          (case execute_step t step_name step_func of
             (Some e, t') \<Rightarrow> (Some e, t')
           | (None, t') \<Rightarrow> run_steps t' rest))"

text \<open>\<open>Task.save_result\<close>: \<open>open(..., "w")\<close> empties the file before \<open>to_dict\<close> runs.\<close>

definition save_result :: "lib \<Rightarrow> Task \<Rightarrow> string \<Rightarrow> fs \<Rightarrow> exn option \<times> fs" where
  "save_result L t path files =
     (let files1 = makedirs path files;
          file = path_join path (task_id t @ ''.json'');
          files2 = AList.update file [] files1
      in case to_dict L (result t) of
           Inl e \<Rightarrow> (Some e, files2)
         | Inr d \<Rightarrow> (None, AList.update file (json_dumps L d) files2))"

text \<open>
  \<open>Task.execute\<close>; \<open>t_start\<close> and \<open>t_end\<close> are the two readings of the clock. The result
  is the returned dict or the exception that leaves \<open>execute\<close>, the task and the files.
\<close>

definition execute :: "lib \<Rightarrow> string \<Rightarrow> string \<Rightarrow> Task \<Rightarrow> fs \<Rightarrow> (exn + json) \<times> Task \<times> fs" where
  "execute L t_start t_end t files =
     (if \<not> is_executable t then (Inl (Exn ValueError ''Task is not executable''), t, files)
      else
        let t1 = log (Info ''Task started'') t;
            t2 = t1\<lparr>result := (result t1)\<lparr>status := RUNNING\<rparr>\<rparr>;
            t3 = t2\<lparr>result := (result t2)\<lparr>start_at := JStr t_start\<rparr>\<rparr>;
            (raised, t4) =
              (if steps t3 = [] then (Some (Exn ValueError ''No steps to execute''), t3)
               else run_steps t3 (steps t3));
            t5 = (case raised of
                    Some e \<Rightarrow>
                      log (Error (''Task failed: '' @ str_exn e))
                        (t4\<lparr>result := (result t4)\<lparr>exit_message := JStr (str_exn e),
                                                    status := ERROR\<rparr>\<rparr>)
                  | None \<Rightarrow>
                      log (Info ''Task finished successfully'')
                        (t4\<lparr>result := (result t4)\<lparr>status := SUCCESS\<rparr>\<rparr>));
            t6 = t5\<lparr>result := (result t5)\<lparr>end_at := JStr t_end\<rparr>\<rparr>;
            (failed, files') = save_result L t6 ''results/'' files
        in case failed of
             Some e \<Rightarrow> (Inl e, t6, files')
           | None \<Rightarrow> (to_dict L (result t6), t6, files'))"

text \<open>\<open>Task.add_artifact\<close>.\<close>

definition add_artifact :: "Task \<Rightarrow> string \<Rightarrow> string \<Rightarrow> fs \<Rightarrow> exn option \<times> Task \<times> fs" where
  "add_artifact t path artifact_path files =
     (let t1 = log (Info (''Adding artifact '' @ basename path)) t;
          files1 = makedirs artifact_path files;
          new_path = path_join artifact_path (task_id t1 @ ''_'' @ basename path)
      in case rename path new_path files1 of
           Inl e \<Rightarrow> (Some e, t1, files1)
         | Inr files2 \<Rightarrow>
             (case artifacts (result t1) of
                JObj kvs \<Rightarrow>
                  (None,
                   t1\<lparr>result := (result t1)\<lparr>artifacts :=
                        JObj (AList.update (basename path) (JStr new_path) kvs)\<rparr>\<rparr>,
                   files2)
              | _ \<Rightarrow> (Some (Exn TypeError ''object does not support item assignment''),
                      t1, files2)))"

text \<open>
  \<open>StepResult(**step_result)\<close> on a decoded value: a mapping is required, no keyword but
  the three fields is accepted, and a missing field takes its default.
\<close>

definition StepResult_kwargs :: "json \<Rightarrow> exn + StepResult" where
  "StepResult_kwargs step_result =
     (case step_result of
        JObj kvs \<Rightarrow>
          (if \<exists>k \<in> set (map fst kvs). k \<notin> {''message'', ''status'', ''data''}
           then Inl (Exn TypeError ''__init__() got an unexpected keyword argument'')
           else StepResult_init
                  (case map_of kvs ''message'' of None \<Rightarrow> JStr [] | Some m \<Rightarrow> m)
                  (case map_of kvs ''status'' of None \<Rightarrow> Member PENDING | Some s \<Rightarrow> Uncoerced s)
                  (case map_of kvs ''data'' of None \<Rightarrow> JObj [] | Some d \<Rightarrow> d))
      | _ \<Rightarrow> Inl (Exn TypeError ''argument after ** must be a mapping''))"

text \<open>
  \<open>Task.load_from_file\<close>; \<open>uuid\<close> and \<open>now\<close> feed the \<open>Task()\<close> it starts from. \<open>open\<close>
  raises on a path that names a directory or nothing. The arguments of \<open>TaskResult(...)\<close>
  are evaluated in the order they are written.
\<close>

definition load_from_file :: "lib \<Rightarrow> string \<Rightarrow> string \<Rightarrow> string \<Rightarrow> fs \<Rightarrow> exn + Task" where
  "load_from_file L uuid now file_path files =
     (case map_of files file_path of
        None \<Rightarrow>
          (if is_directory files file_path
           then Inl (Exn IsADirectoryError (''[Errno 21] Is a directory: '' @ file_path))
           else Inl (Exn FileNotFoundError (''[Errno 2] No such file or directory: '' @ file_path)))
      | Some text \<Rightarrow>
          (case json_loads L text of
             None \<Rightarrow> Inl (Exn JSONDecodeError ''Expecting value'')
           | Some d \<Rightarrow>
               (let task = Task_init uuid now Task_class;
                    task = task\<lparr>task_id := removesuffix ''.json'' (basename file_path)\<rparr>
                in and_then (subscript d ''task_type'') (\<lambda>v_task_type.
                   and_then (and_then (subscript d ''status'') STATUS_call) (\<lambda>v_status.
                   and_then (subscript d ''exit_message'') (\<lambda>v_exit_message.
                   and_then (subscript d ''created_at'') (\<lambda>v_created_at.
                   and_then (subscript d ''start_at'') (\<lambda>v_start_at.
                   and_then (subscript d ''end_at'') (\<lambda>v_end_at.
                   and_then (and_then (and_then (subscript d ''data'') dict_items)
                               (\<lambda>items. dict_comp StepResult_kwargs items [])) (\<lambda>v_data.
                   and_then (dict_get d ''artifacts'' (JObj [])) (\<lambda>v_artifacts.
                   Inr (task\<lparr>result :=
                               \<lparr>task_type = v_task_type,
                                status = v_status,
                                exit_message = v_exit_message,
                                data = v_data,
                                created_at = v_created_at,
                                start_at = v_start_at,
                                end_at = v_end_at,
                                artifacts = v_artifacts\<rparr>,
                             is_executable := False\<rparr>))))))))))))"

section \<open>TaskManager (\<open>task_manager.py\<close>)\<close>

text \<open>The registry and the configured paths; the worker pool is not part of the model.\<close>

record TaskManager =
  tasks :: "(string \<times> Task) list"
  path_artifact :: string
  path_result :: string
  mgr_logged :: "log_record list"

definition mgr_log :: "log_record \<Rightarrow> TaskManager \<Rightarrow> TaskManager" where
  "mgr_log entry m = m\<lparr>mgr_logged := mgr_logged m @ [entry]\<rparr>"

definition TaskManager_init :: "string \<Rightarrow> string \<Rightarrow> TaskManager" where
  "TaskManager_init artifact_dir result_dir =
     \<lparr>tasks = [], path_artifact = artifact_dir, path_result = result_dir, mgr_logged = []\<rparr>"

text \<open>
  The loop of \<open>load_from_disk\<close> over the directory listing: only \<open>JSONDecodeError\<close> is
  caught; any other exception leaves the method. \<open>fresh\<close> gives the uuid and the clock
  reading of the \<open>Task()\<close> made for a file.
\<close>

fun load_entries :: "lib \<Rightarrow> (string \<Rightarrow> string \<times> string) \<Rightarrow> fs \<Rightarrow> TaskManager \<Rightarrow> string list
    \<Rightarrow> exn option \<times> TaskManager" where
  "load_entries L fresh files m [] = (None, m)"
| "load_entries L fresh files m (file # rest) =
     (let task_id = split_dot_first file;
          m1 = mgr_log (Info (''Loading task '' @ task_id @ '' from disk'')) m
      in case load_from_file L (fst (fresh file)) (snd (fresh file))
                (path_join (path_result m1) file) files of
           Inl e \<Rightarrow>
             (if exn_cls e = JSONDecodeError
              then load_entries L fresh files
                     (mgr_log (Error (''Error loading task '' @ task_id @ '' from disk'')) m1) rest
              else (Some e, m1))
         | Inr task \<Rightarrow>
             load_entries L fresh files (m1\<lparr>tasks := AList.update task_id task (tasks m1)\<rparr>) rest)"

definition load_from_disk :: "lib \<Rightarrow> (string \<Rightarrow> string \<times> string) \<Rightarrow> TaskManager \<Rightarrow> fs
    \<Rightarrow> exn option \<times> TaskManager" where
  "load_from_disk L fresh m files =
     (case listdir (path_result m) files of
        Inl e \<Rightarrow> (Some e, m)
      | Inr names \<Rightarrow> load_entries L fresh files m names)"

text \<open>\<open>TaskManager.get_task_status\<close>; \<open>logs_folder_path\<close> is \<open>None\<close> or a path.\<close>

definition get_task_status :: "lib \<Rightarrow> TaskManager \<Rightarrow> string \<Rightarrow> string option \<Rightarrow> fs
    \<Rightarrow> exn + json" where
  "get_task_status L m tid logs_folder_path files =
     (case map_of (tasks m) tid of
        None \<Rightarrow> Inl (Exn ValueError (''Task '' @ tid @ '' not found''))
      | Some task \<Rightarrow>
          (let logs_task =
                 (case logs_folder_path of
                    None \<Rightarrow> []
                  | Some folder \<Rightarrow>
                      (if folder \<noteq> [] \<and> path_exists files (path_join folder (tid @ ''.log''))
                       then (case map_of files (path_join folder (tid @ ''.log'')) of
                               None \<Rightarrow> []
                             | Some text \<Rightarrow> readlines text)
                       else []))
           in and_then (to_dict L (result task)) (\<lambda>d.
              case d of
                JObj kvs \<Rightarrow> Inr (JObj (dict_or kvs [(''logs'', JArr (map JStr logs_task))]))
              | _ \<Rightarrow> Inl (Exn TypeError ''unsupported operand type(s) for |''))))"

section \<open>Notions used in the statements\<close>

text \<open>
  What calling \<open>getattr(self, name)\<close> does at the time \<open>execute\<close> runs, when all five
  instance attributes are set; \<open>None\<close> when the lookup itself fails.
\<close>

definition step_call :: "pyclass \<Rightarrow> string \<Rightarrow> outcome option" where
  "step_call c name =
     map_option call_member (py_getattr (attrs_before_dir @ attrs_after_dir) c name)"

text \<open>The task as \<open>execute\<close> leaves it, and the task at the moment the \<open>try\<close> is entered.\<close>

definition final_task :: "lib \<Rightarrow> string \<Rightarrow> string \<Rightarrow> Task \<Rightarrow> fs \<Rightarrow> Task" where
  "final_task L t_start t_end t files = fst (snd (execute L t_start t_end t files))"

definition started :: "string \<Rightarrow> Task \<Rightarrow> Task" where
  "started t_start t =
     (let t1 = log (Info ''Task started'') t;
          t2 = t1\<lparr>result := (result t1)\<lparr>status := RUNNING\<rparr>\<rparr>
      in t2\<lparr>result := (result t2)\<lparr>start_at := JStr t_start\<rparr>\<rparr>)"

text \<open>
  What \<open>load_from_file\<close> gives for an entry of the result directory, and the registry
  after an entry that reconstructs has been stored under its key.
\<close>

definition loaded :: "lib \<Rightarrow> (string \<Rightarrow> string \<times> string) \<Rightarrow> fs \<Rightarrow> string \<Rightarrow> string
    \<Rightarrow> exn + Task" where
  "loaded L fresh files dir entry =
     load_from_file L (fst (fresh entry)) (snd (fresh entry)) (path_join dir entry) files"

definition register :: "lib \<Rightarrow> (string \<Rightarrow> string \<times> string) \<Rightarrow> fs \<Rightarrow> string
    \<Rightarrow> (string \<times> Task) list \<Rightarrow> string \<Rightarrow> (string \<times> Task) list" where
  "register L fresh files dir reg entry =
     (case loaded L fresh files dir entry of
        Inl e \<Rightarrow> reg
      | Inr task \<Rightarrow> AList.update (split_dot_first entry) task reg)"

section \<open>Example data\<close>

text \<open>
  A task class with one step, the record \<open>to_dict\<close> gives for a fresh instance of it,
  and the text \<open>json.dump\<close> writes for that record; the same record with a step status
  that is not a member of the enum; a class whose second step raises.
\<close>

definition sample_class :: pyclass where
  "sample_class = \<lparr>class_name = ''MyTask'', body = [(''step1'', Step (Returns (JInt 7)))]\<rparr>"

definition failing_class :: pyclass where
  "failing_class =
     \<lparr>class_name = ''Pipeline'',
      body = [(''fetch'', Step (Returns (JInt 1))),
              (''parse'', Step (Raises (Exn ValueError ''bad input''))),
              (''store'', Step (Returns JNull))]\<rparr>"

definition sample_record :: json where
  "sample_record =
     JObj [(''task_type'', JStr ''MyTask''),
           (''status'', JStr ''PENDING''),
           (''exit_code'', JInt 0),
           (''exit_message'', JNull),
           (''data'', JObj [(''step1'',
               JObj [(''message'', JStr []), (''status'', JStr ''PENDING''), (''data'', JObj [])])]),
           (''created_at'', JStr ''2021-01-01T00:00:00''),
           (''start_at'', JNull),
           (''end_at'', JNull),
           (''duration'', JNull),
           (''artifacts'', JObj [])]"

definition sample_text :: string where
  "sample_text = ''{\"task_type\": \"MyTask\", \"status\": \"PENDING\", \"exit_code\": 0, \"exit_message\": null, \"data\": {\"step1\": {\"message\": \"\", \"status\": \"PENDING\", \"data\": {}}}, \"created_at\": \"2021-01-01T00:00:00\", \"start_at\": null, \"end_at\": null, \"duration\": null, \"artifacts\": {}}''"

definition unknown_status_record :: "(string \<times> json) list" where
  "unknown_status_record =
     [(''task_type'', JStr ''MyTask''),
      (''status'', JStr ''SUCCESS''),
      (''exit_message'', JNull),
      (''data'', JObj [(''step1'',
          JObj [(''message'', JStr []), (''status'', JStr ''DONE''), (''data'', JObj [])])]),
      (''created_at'', JStr ''2021-01-01T00:00:00''),
      (''start_at'', JNull),
      (''end_at'', JNull),
      (''artifacts'', JObj [])]"

definition unknown_status_text :: string where
  "unknown_status_text = ''{\"task_type\": \"MyTask\", \"status\": \"SUCCESS\", \"exit_message\": null, \"data\": {\"step1\": {\"message\": \"\", \"status\": \"DONE\", \"data\": {}}}, \"created_at\": \"2021-01-01T00:00:00\", \"start_at\": null, \"end_at\": null, \"artifacts\": {}}''"

text \<open>
  An instance of the library for the examples: the codec as a table of the texts above
  (any other text does not decode), and two timestamps.
\<close>

definition sample_lib :: lib where
  "sample_lib =
     \<lparr>json_dumps = (\<lambda>j. if j = sample_record then sample_text
                        else if j = JObj unknown_status_record then unknown_status_text
                        else if j = JObj [] then ''{}'' else ''null''),
      json_loads = (\<lambda>s. if s = sample_text then Some sample_record
                        else if s = unknown_status_text then Some (JObj unknown_status_record)
                        else if s = ''{}'' then Some (JObj [])
                        else if s = ''null'' then Some JNull else None),
      fromisoformat = (\<lambda>s. if s = ''2021-01-01T00:00:00'' then Some 0
                           else if s = ''2021-01-01T00:10:00'' then Some 600000000 else None),
      total_seconds = (\<lambda>e s. JInt ((e - s) div 1000000))\<rparr>"

definition sample_fresh :: "string \<Rightarrow> string \<times> string" where
  "sample_fresh entry = (''00000000-0000-4000-8000-000000000000'', ''2021-01-02T00:00:00'')"

definition sample_task :: Task where
  "sample_task = Task_init ''1234'' ''2021-01-01T00:00:00'' sample_class"

definition sample_results :: fs where
  "sample_results = [(''results/a.json'', ''{}''), (''results/b.json'', sample_text)]"

definition nested_results :: fs where
  "nested_results =
     [(''results/bad.json'', ''{not json''), (''results/sub/x.json'', sample_text),
      (''results/b.json'', sample_text)]"

definition mixed_results :: fs where
  "mixed_results = [(''results/bad.json'', ''{not json''), (''results/b.json'', sample_text)]"

section \<open>Step discovery\<close>

lemma sorted_discover_steps: "sorted (discover_steps c)"
  by (simp add: discover_steps_def py_dir_def sorted_wrt_filter)

lemma distinct_discover_steps: "distinct (discover_steps c)"
  by (simp add: discover_steps_def py_dir_def)

lemma discover_steps_sample: "discover_steps sample_class = [''step1'']"
  by (simp add: discover_steps_def sample_class_def py_dir_def py_getattr_def
      attrs_before_dir_def Task_declared_def)

lemma discover_steps_failing: "discover_steps failing_class = [''fetch'', ''parse'', ''store'']"
  by (simp add: discover_steps_def failing_class_def py_dir_def py_getattr_def
      attrs_before_dir_def Task_declared_def)

lemma discover_steps_Task: "discover_steps Task_class = []"
  by (simp add: discover_steps_def Task_class_def py_dir_def py_getattr_def
      attrs_before_dir_def Task_declared_def)

text \<open>
  C1. Discovery does not keep the declaration order: for a class that declares the step
  \<open>step_b\<close> first and the step \<open>step_a\<close> second, the discovered list is \<open>step_a\<close>,
  \<open>step_b\<close>, the sorted order that \<open>dir\<close> gives, and not the order of declaration.
\<close>

theorem C1_discovery_is_sorted_not_declared:
  "discover_steps \<lparr>class_name = ''MyTask'',
       body = [(''step_b'', Step (Returns JNull)), (''step_a'', Step (Returns JNull))]\<rparr>
     = [''step_a'', ''step_b'']
   \<and> declared_steps \<lparr>class_name = ''MyTask'',
       body = [(''step_b'', Step (Returns JNull)), (''step_a'', Step (Returns JNull))]\<rparr>
     = [''step_b'', ''step_a'']"
  by (simp add: discover_steps_def declared_steps_def py_dir_def py_getattr_def
      attrs_before_dir_def Task_declared_def)

section \<open>The exit code\<close>

text \<open>
  C4. The derived exit code is 1 exactly when \<open>data\<close> is empty or every step result in it
  has status ERROR, and it is 0 otherwise.
\<close>

theorem C4_exit_code:
  "(exit_code r = 1 \<longleftrightarrow>
      data r = [] \<or> (\<forall>sr \<in> set (map snd (data r)). sr_status sr = Member ERROR))
   \<and> (exit_code r \<noteq> 1 \<longrightarrow> exit_code r = 0)"
  by (auto simp: exit_code_def list_all_iff)

theorem C4_exit_code_witness:
  "exit_code (result sample_task) = 0
   \<and> exit_code ((result sample_task)\<lparr>data := [(''step1'',
         StepResult_default\<lparr>sr_status := Member ERROR\<rparr>)]\<rparr>) = 1
   \<and> exit_code ((result sample_task)\<lparr>data := []\<rparr>) = 1"
proof -
  have d: "data (result sample_task) = [(''step1'', StepResult_default)]"
    by (simp add: sample_task_def Task_init_def discover_steps_sample)
  have "exit_code (result sample_task) \<noteq> 1"
    using C4_exit_code[of "result sample_task"] d by (simp add: StepResult_default_def)
  then have a: "exit_code (result sample_task) = 0"
    using C4_exit_code[of "result sample_task"] by simp
  have b: "exit_code ((result sample_task)\<lparr>data := [(''step1'',
         StepResult_default\<lparr>sr_status := Member ERROR\<rparr>)]\<rparr>) = 1"
    using C4_exit_code[of "(result sample_task)\<lparr>data := [(''step1'',
         StepResult_default\<lparr>sr_status := Member ERROR\<rparr>)]\<rparr>"] by simp
  have c: "exit_code ((result sample_task)\<lparr>data := []\<rparr>) = 1"
    using C4_exit_code[of "(result sample_task)\<lparr>data := []\<rparr>"] by simp
  show ?thesis using a b c by simp
qed

section \<open>Running the steps\<close>

lemma update_fresh: "k \<notin> fst ` set al \<Longrightarrow> AList.update k v al = al @ [(k, v)]"
  by (induction al) auto

lemma foldl_update_distinct:
  "distinct xs \<Longrightarrow> set xs \<inter> fst ` set acc = {} \<Longrightarrow>
   foldl (\<lambda>d s. AList.update s (f s) d) acc xs = acc @ map (\<lambda>s. (s, f s)) xs"
proof (induction xs arbitrary: acc)
  case Nil
  then show ?case by simp
next
  case (Cons x xs)
  have "AList.update x (f x) acc = acc @ [(x, f x)]"
    using Cons.prems by (intro update_fresh) auto
  moreover have "set xs \<inter> fst ` set (acc @ [(x, f x)]) = {}"
    using Cons.prems by auto
  ultimately show ?case
    using Cons.IH[of "acc @ [(x, f x)]"] Cons.prems by simp
qed

lemma Task_init_data:
  "data (result (Task_init uuid now c)) = map (\<lambda>s. (s, StepResult_default)) (discover_steps c)"
  using foldl_update_distinct[of "discover_steps c" "[]" "\<lambda>_. StepResult_default"]
  by (simp add: Task_init_def distinct_discover_steps)

lemma map_fst_map_entry: "map fst (AList.map_entry k f al) = map fst al"
  by (induction al) auto

lemma execute_step_Returns:
  assumes "map_of (data (result t)) n = Some sr" "call_member m = Returns v"
  shows "\<exists>t'. execute_step t n m = (None, t')
     \<and> invoked t' = invoked t @ [n] \<and> cls t' = cls t \<and> steps t' = steps t
     \<and> is_executable t' = is_executable t \<and> task_id t' = task_id t
     \<and> map fst (data (result t')) = map fst (data (result t))
     \<and> map_of (data (result t'))
         = (map_of (data (result t)))(n \<mapsto> sr\<lparr>sr_status := Member SUCCESS, sr_data := v\<rparr>)
     \<and> (result t')\<lparr>data := []\<rparr> = (result t)\<lparr>data := []\<rparr>"
  using assms
  by (auto simp: execute_step_def log_def set_step_status_def set_step_data_def Let_def
      map_of_map_entry map_fst_map_entry fun_eq_iff)

lemma execute_step_Raises:
  assumes "map_of (data (result t)) n = Some sr" "call_member m = Raises e"
  shows "\<exists>t'. execute_step t n m = (Some e, t')
     \<and> invoked t' = invoked t @ [n] \<and> cls t' = cls t \<and> steps t' = steps t
     \<and> is_executable t' = is_executable t \<and> task_id t' = task_id t
     \<and> map fst (data (result t')) = map fst (data (result t))
     \<and> map_of (data (result t')) = (map_of (data (result t)))(n \<mapsto> sr\<lparr>sr_status := Member ERROR\<rparr>)
     \<and> (result t')\<lparr>data := []\<rparr> = (result t)\<lparr>data := []\<rparr>"
  using assms
  by (auto simp: execute_step_def log_def set_step_status_def set_step_data_def Let_def
      map_of_map_entry map_fst_map_entry fun_eq_iff)

text \<open>
  The loop up to the first step that raises: the steps before it have returned and carry
  SUCCESS and their payload, the raising one carries ERROR, every other entry of \<open>data\<close>
  is as it was, and exactly the steps up to the raising one have been called.
\<close>

lemma run_steps_raise:
  assumes "k < length ns" "distinct ns" "set ns \<subseteq> dom (map_of (data (result t)))"
    "\<forall>i<k. \<exists>v. step_call (cls t) (ns ! i) = Some (Returns v)"
    "step_call (cls t) (ns ! k) = Some (Raises e)"
  shows "\<exists>t'. run_steps t ns = (Some e, t')
     \<and> invoked t' = invoked t @ take (Suc k) ns \<and> cls t' = cls t \<and> steps t' = steps t
     \<and> is_executable t' = is_executable t \<and> task_id t' = task_id t
     \<and> map fst (data (result t')) = map fst (data (result t))
     \<and> (result t')\<lparr>data := []\<rparr> = (result t)\<lparr>data := []\<rparr>
     \<and> (\<forall>n. n \<notin> set (take (Suc k) ns) \<longrightarrow>
           map_of (data (result t')) n = map_of (data (result t)) n)
     \<and> map_of (data (result t')) (ns ! k)
         = map_option (\<lambda>sr. sr\<lparr>sr_status := Member ERROR\<rparr>) (map_of (data (result t)) (ns ! k))
     \<and> (\<forall>n \<in> set (take k ns). \<forall>v. step_call (cls t) n = Some (Returns v) \<longrightarrow>
           map_of (data (result t')) n
             = map_option (\<lambda>sr. sr\<lparr>sr_status := Member SUCCESS, sr_data := v\<rparr>)
                 (map_of (data (result t)) n))"
  using assms
proof (induction ns arbitrary: t k)
  case Nil
  then show ?case by simp
next
  case (Cons n ns)
  from Cons.prems(3) obtain sr where sr: "map_of (data (result t)) n = Some sr"
    by auto
  show ?case
  proof (cases k)
    case 0
    with Cons.prems(5) obtain m
      where m: "py_getattr (attrs_before_dir @ attrs_after_dir) (cls t) n = Some m"
        and cm: "call_member m = Raises e"
      by (auto simp: step_call_def)
    from execute_step_Raises[OF sr cm] obtain t' where
      t': "execute_step t n m = (Some e, t')" "invoked t' = invoked t @ [n]" "cls t' = cls t"
        "steps t' = steps t" "is_executable t' = is_executable t" "task_id t' = task_id t"
        "map fst (data (result t')) = map fst (data (result t))"
        "map_of (data (result t')) = (map_of (data (result t)))(n \<mapsto> sr\<lparr>sr_status := Member ERROR\<rparr>)"
        "(result t')\<lparr>data := []\<rparr> = (result t)\<lparr>data := []\<rparr>"
      by blast
    show ?thesis
      using 0 m t' sr by simp
  next
    case (Suc j)
    with Cons.prems(4) obtain v where rv: "step_call (cls t) n = Some (Returns v)"
      by fastforce
    then obtain m
      where m: "py_getattr (attrs_before_dir @ attrs_after_dir) (cls t) n = Some m"
        and cm: "call_member m = Returns v"
      by (auto simp: step_call_def)
    from execute_step_Returns[OF sr cm] obtain t1 where
      t1: "execute_step t n m = (None, t1)" "invoked t1 = invoked t @ [n]" "cls t1 = cls t"
        "steps t1 = steps t" "is_executable t1 = is_executable t" "task_id t1 = task_id t"
        "map fst (data (result t1)) = map fst (data (result t))"
        "map_of (data (result t1))
           = (map_of (data (result t)))(n \<mapsto> sr\<lparr>sr_status := Member SUCCESS, sr_data := v\<rparr>)"
        "(result t1)\<lparr>data := []\<rparr> = (result t)\<lparr>data := []\<rparr>"
      by blast
    have p1: "j < length ns"
      using Cons.prems(1) Suc by simp
    have p2: "distinct ns"
      using Cons.prems(2) by simp
    have p3: "set ns \<subseteq> dom (map_of (data (result t1)))"
      using Cons.prems(3) t1(8) by auto
    have p4: "\<forall>i<j. \<exists>v. step_call (cls t1) (ns ! i) = Some (Returns v)"
      using Cons.prems(4) Suc t1(3) by auto
    have p5: "step_call (cls t1) (ns ! j) = Some (Raises e)"
      using Cons.prems(5) Suc t1(3) by simp
    from Cons.IH[OF p1 p2 p3 p4 p5] obtain t' where
      t': "run_steps t1 ns = (Some e, t')" "invoked t' = invoked t1 @ take (Suc j) ns"
        "cls t' = cls t1" "steps t' = steps t1" "is_executable t' = is_executable t1"
        "task_id t' = task_id t1" "map fst (data (result t')) = map fst (data (result t1))"
        "(result t')\<lparr>data := []\<rparr> = (result t1)\<lparr>data := []\<rparr>"
        "\<forall>n. n \<notin> set (take (Suc j) ns) \<longrightarrow>
           map_of (data (result t')) n = map_of (data (result t1)) n"
        "map_of (data (result t')) (ns ! j)
           = map_option (\<lambda>sr. sr\<lparr>sr_status := Member ERROR\<rparr>) (map_of (data (result t1)) (ns ! j))"
        "\<forall>n \<in> set (take j ns). \<forall>v. step_call (cls t1) n = Some (Returns v) \<longrightarrow>
           map_of (data (result t')) n
             = map_option (\<lambda>sr. sr\<lparr>sr_status := Member SUCCESS, sr_data := v\<rparr>)
                 (map_of (data (result t1)) n)"
      by blast
    have nn: "n \<notin> set ns"
      using Cons.prems(2) by simp
    then have nt: "n \<notin> set (take (Suc j) ns)" "n \<notin> set (take j ns)"
      by (auto dest: in_set_takeD)
    have nj: "ns ! j \<noteq> n"
      using nn p1 by (metis nth_mem)
    have run: "run_steps t (n # ns) = (Some e, t')"
      using m t1(1) t'(1) by simp
    have a: "invoked t' = invoked t @ take (Suc k) (n # ns)"
      using t'(2) t1(2) Suc by simp
    have b: "\<forall>x. x \<notin> set (take (Suc k) (n # ns)) \<longrightarrow>
        map_of (data (result t')) x = map_of (data (result t)) x"
      using t'(9) t1(8) Suc by auto
    have c: "map_of (data (result t')) ((n # ns) ! k)
         = map_option (\<lambda>sr. sr\<lparr>sr_status := Member ERROR\<rparr>)
             (map_of (data (result t)) ((n # ns) ! k))"
      using t'(10) t1(8) Suc nj by simp
    have d: "\<forall>x \<in> set (take k (n # ns)). \<forall>v. step_call (cls t) x = Some (Returns v) \<longrightarrow>
           map_of (data (result t')) x
             = map_option (\<lambda>sr. sr\<lparr>sr_status := Member SUCCESS, sr_data := v\<rparr>)
                 (map_of (data (result t)) x)"
    proof (intro ballI allI impI)
      fix x w
      assume x: "x \<in> set (take k (n # ns))" and w: "step_call (cls t) x = Some (Returns w)"
      show "map_of (data (result t')) x
             = map_option (\<lambda>sr. sr\<lparr>sr_status := Member SUCCESS, sr_data := w\<rparr>)
                 (map_of (data (result t)) x)"
      proof (cases "x = n")
        case True
        have "w = v"
          using w True rv by simp
        then show ?thesis
          using True t'(9) nt(1) t1(8) sr by simp
      next
        case False
        then have "x \<in> set (take j ns)"
          using x Suc by simp
        then show ?thesis
          using t'(11) w t1(3) t1(8) False by simp
      qed
    qed
    show ?thesis
      using run a b c d t'(3-8) t1(3-9) by simp
  qed
qed

lemma execute_raised:
  assumes "is_executable t" "steps t \<noteq> []" "run_steps (started ts t) (steps t) = (Some e, t4)"
  shows "final_task L ts te t files =
     (log (Error (''Task failed: '' @ str_exn e))
        (t4\<lparr>result := (result t4)\<lparr>exit_message := JStr (str_exn e), status := ERROR\<rparr>\<rparr>))
       \<lparr>result := (result t4)\<lparr>exit_message := JStr (str_exn e), status := ERROR,
                             end_at := JStr te\<rparr>\<rparr>"
  using assms
  by (simp add: final_task_def execute_def started_def Let_def log_def
      split: prod.splits option.splits)

lemma execute_no_steps:
  assumes "is_executable t" "steps t = []"
  shows "final_task L ts te t files =
     (log (Error ''Task failed: No steps to execute'') (started ts t))
       \<lparr>result := (result (started ts t))\<lparr>exit_message := JStr ''No steps to execute'',
                                           status := ERROR, end_at := JStr te\<rparr>\<rparr>"
  using assms
  by (simp add: final_task_def execute_def started_def Let_def log_def
      split: prod.splits option.splits)

text \<open>
  A fresh task whose step at position \<open>k\<close> is the first to raise, after \<open>execute\<close>.
\<close>

lemma execute_failing_step:
  assumes "k < length (discover_steps c)"
    and "\<forall>i<k. \<exists>v. step_call c (discover_steps c ! i) = Some (Returns v)"
    and "step_call c (discover_steps c ! k) = Some (Raises e)"
    and "t' = final_task L ts te (Task_init uuid now c) files"
  shows "invoked t' = take (Suc k) (discover_steps c)"
    and "status (result t') = ERROR"
    and "exit_message (result t') = JStr (str_exn e)"
    and "\<And>n. n \<in> set (discover_steps c) \<Longrightarrow> n \<notin> set (take (Suc k) (discover_steps c)) \<Longrightarrow>
           map_of (data (result t')) n = Some StepResult_default"
    and "map_of (data (result t')) (discover_steps c ! k)
           = Some (StepResult_default\<lparr>sr_status := Member ERROR\<rparr>)"
    and "\<And>n v. n \<in> set (take k (discover_steps c)) \<Longrightarrow> step_call c n = Some (Returns v) \<Longrightarrow>
           map_of (data (result t')) n
             = Some (StepResult_default\<lparr>sr_status := Member SUCCESS, sr_data := v\<rparr>)"
proof -
  let ?t0 = "Task_init uuid now c"
  let ?ns = "discover_steps c"
  have ex: "is_executable ?t0" and st: "steps ?t0 = ?ns" and ne: "steps ?t0 \<noteq> []"
    using assms(1) by (auto simp: Task_init_def)
  have dat: "data (result (started ts ?t0)) = map (\<lambda>s. (s, StepResult_default)) ?ns"
    by (simp add: started_def log_def Let_def Task_init_data)
  have ini: "map_of (data (result (started ts ?t0))) n = Some StepResult_default"
    if "n \<in> set ?ns" for n
    unfolding dat using that by (simp add: map_of_map_restrict restrict_map_def)
  have cl: "cls (started ts ?t0) = c" and inv0: "invoked (started ts ?t0) = []"
    by (simp_all add: started_def log_def Let_def Task_init_def)
  have dom: "set ?ns \<subseteq> dom (map_of (data (result (started ts ?t0))))"
    using ini by auto
  from run_steps_raise[OF assms(1) distinct_discover_steps dom, of e] assms(2,3) cl
  obtain t4 where t4: "run_steps (started ts ?t0) ?ns = (Some e, t4)"
    "invoked t4 = invoked (started ts ?t0) @ take (Suc k) ?ns"
    "\<forall>n. n \<notin> set (take (Suc k) ?ns) \<longrightarrow>
        map_of (data (result t4)) n = map_of (data (result (started ts ?t0))) n"
    "map_of (data (result t4)) (?ns ! k)
       = map_option (\<lambda>sr. sr\<lparr>sr_status := Member ERROR\<rparr>)
           (map_of (data (result (started ts ?t0))) (?ns ! k))"
    "\<forall>n \<in> set (take k ?ns). \<forall>v. step_call c n = Some (Returns v) \<longrightarrow>
           map_of (data (result t4)) n
             = map_option (\<lambda>sr. sr\<lparr>sr_status := Member SUCCESS, sr_data := v\<rparr>)
                 (map_of (data (result (started ts ?t0))) n)"
    by auto
  have t': "t' = (log (Error (''Task failed: '' @ str_exn e))
        (t4\<lparr>result := (result t4)\<lparr>exit_message := JStr (str_exn e), status := ERROR\<rparr>\<rparr>))
       \<lparr>result := (result t4)\<lparr>exit_message := JStr (str_exn e), status := ERROR,
                             end_at := JStr te\<rparr>\<rparr>"
    using execute_raised[OF ex ne, of ts e t4] t4(1) st assms(4) by simp
  have d: "data (result t') = data (result t4)"
    using t' by simp
  show "invoked t' = take (Suc k) ?ns"
    using t' t4(2) inv0 by (simp add: log_def)
  show "status (result t') = ERROR"
    using t' by simp
  show "exit_message (result t') = JStr (str_exn e)"
    using t' by simp
  show "map_of (data (result t')) n = Some StepResult_default"
    if "n \<in> set ?ns" "n \<notin> set (take (Suc k) ?ns)" for n
    using t4(3) that ini d by simp
  show "map_of (data (result t')) (?ns ! k) = Some (StepResult_default\<lparr>sr_status := Member ERROR\<rparr>)"
    using t4(4) ini[of "?ns ! k"] assms(1) d by simp
  show "map_of (data (result t')) n
          = Some (StepResult_default\<lparr>sr_status := Member SUCCESS, sr_data := v\<rparr>)"
    if "n \<in> set (take k ?ns)" "step_call c n = Some (Returns v)" for n v
  proof -
    have "n \<in> set ?ns"
      using that(1) by (rule in_set_takeD)
    then show ?thesis
      using t4(5) that ini[of n] d by simp
  qed
qed

lemma later_step_not_taken:
  assumes "distinct ns" "k < j" "j < length ns"
  shows "ns ! j \<notin> set (take (Suc k) ns)"
proof
  assume "ns ! j \<in> set (take (Suc k) ns)"
  then obtain i where "i < Suc k" "i < length ns" "ns ! i = ns ! j"
    by (auto simp: in_set_conv_nth)
  then show False
    using assms by (auto simp: nth_eq_iff_index_eq)
qed

lemma step_call_failing:
  "step_call failing_class ''fetch'' = Some (Returns (JInt 1))"
  "step_call failing_class ''parse'' = Some (Raises (Exn ValueError ''bad input''))"
  by (simp_all add: step_call_def failing_class_def py_getattr_def attrs_before_dir_def
      attrs_after_dir_def)

text \<open>
  C2. For a fresh task whose step at position \<open>k\<close> raises (the steps before it having
  returned): after \<open>execute\<close>, the steps called are exactly those up to position \<open>k\<close>, so
  no later step has been called; each later step's result still has status PENDING; the
  task's status is ERROR; and \<open>exit_message\<close> is the text of the exception that step
  \<open>k\<close> raised. This holds whether or not saving the result then succeeds.
\<close>

theorem C2_failing_step_aborts_rest:
  assumes "k < length (discover_steps c)"
    and "\<forall>i<k. \<exists>v. step_call c (discover_steps c ! i) = Some (Returns v)"
    and "step_call c (discover_steps c ! k) = Some (Raises e)"
  shows "invoked (final_task L ts te (Task_init uuid now c) files) = take (Suc k) (discover_steps c)
     \<and> (\<forall>j. k < j \<and> j < length (discover_steps c) \<longrightarrow>
           discover_steps c ! j \<notin> set (invoked (final_task L ts te (Task_init uuid now c) files))
         \<and> map_option sr_status
               (map_of (data (result (final_task L ts te (Task_init uuid now c) files)))
                  (discover_steps c ! j))
             = Some (Member PENDING))
     \<and> status (result (final_task L ts te (Task_init uuid now c) files)) = ERROR
     \<and> exit_message (result (final_task L ts te (Task_init uuid now c) files)) = JStr (str_exn e)"
proof -
  let ?t' = "final_task L ts te (Task_init uuid now c) files"
  note f = execute_failing_step[OF assms refl, where L = L and ts = ts and te = te and uuid = uuid
      and now = now and files = files]
  have "discover_steps c ! j \<notin> set (invoked ?t')
      \<and> map_option sr_status (map_of (data (result ?t')) (discover_steps c ! j))
          = Some (Member PENDING)"
    if "k < j" "j < length (discover_steps c)" for j
  proof -
    have n: "discover_steps c ! j \<notin> set (take (Suc k) (discover_steps c))"
      using later_step_not_taken[OF distinct_discover_steps that] .
    have "map_of (data (result ?t')) (discover_steps c ! j) = Some StepResult_default"
      using f(4)[OF _ n] that(2) by simp
    then show ?thesis
      using n f(1) by (simp add: StepResult_default_def)
  qed
  then show ?thesis
    using f(1,2,3) by blast
qed

theorem C2_failing_step_aborts_rest_witness:
  "invoked (final_task sample_lib ''2021-01-01T00:00:00'' ''2021-01-01T00:10:00''
      (Task_init ''1234'' ''2021-01-01T00:00:00'' failing_class) []) = [''fetch'', ''parse'']
   \<and> map_option sr_status (map_of (data (result
        (final_task sample_lib ''2021-01-01T00:00:00'' ''2021-01-01T00:10:00''
           (Task_init ''1234'' ''2021-01-01T00:00:00'' failing_class) []))) ''store'')
       = Some (Member PENDING)
   \<and> status (result (final_task sample_lib ''2021-01-01T00:00:00'' ''2021-01-01T00:10:00''
        (Task_init ''1234'' ''2021-01-01T00:00:00'' failing_class) [])) = ERROR
   \<and> exit_message (result (final_task sample_lib ''2021-01-01T00:00:00'' ''2021-01-01T00:10:00''
        (Task_init ''1234'' ''2021-01-01T00:00:00'' failing_class) [])) = JStr ''bad input''"
proof -
  have h1: "1 < length (discover_steps failing_class)"
    by (simp add: discover_steps_failing)
  have h2: "\<forall>i<1. \<exists>v. step_call failing_class (discover_steps failing_class ! i) = Some (Returns v)"
    by (simp add: discover_steps_failing step_call_failing)
  have h3: "step_call failing_class (discover_steps failing_class ! 1)
      = Some (Raises (Exn ValueError ''bad input''))"
    by (simp add: discover_steps_failing step_call_failing)
  note w = C2_failing_step_aborts_rest[OF h1 h2 h3, where L = sample_lib
      and ts = "''2021-01-01T00:00:00''" and te = "''2021-01-01T00:10:00''" and uuid = "''1234''"
      and now = "''2021-01-01T00:00:00''" and files = "[]"]
  from w have "2 < length (discover_steps failing_class) \<longrightarrow>
      map_option sr_status (map_of (data (result
        (final_task sample_lib ''2021-01-01T00:00:00'' ''2021-01-01T00:10:00''
           (Task_init ''1234'' ''2021-01-01T00:00:00'' failing_class) [])))
         (discover_steps failing_class ! 2)) = Some (Member PENDING)"
    by simp
  with w show ?thesis
    by (simp add: discover_steps_failing)
qed

text \<open>
  C3. For a fresh task of a class with no discovered step, \<open>execute\<close> ends with status
  ERROR, exit code 1 and the exit message \<open>No steps to execute\<close>.
\<close>

theorem C3_no_steps:
  assumes "discover_steps c = []"
  shows "status (result (final_task L ts te (Task_init uuid now c) files)) = ERROR
     \<and> exit_code (result (final_task L ts te (Task_init uuid now c) files)) = 1
     \<and> exit_message (result (final_task L ts te (Task_init uuid now c) files))
         = JStr ''No steps to execute''"
proof -
  have e: "is_executable (Task_init uuid now c)" and s: "steps (Task_init uuid now c) = []"
    using assms by (simp_all add: Task_init_def)
  have d: "data (result (started ts (Task_init uuid now c))) = []"
    using assms by (simp add: started_def log_def Let_def Task_init_data)
  show ?thesis
    unfolding execute_no_steps[OF e s] using d by (simp add: exit_code_def log_def)
qed

theorem C3_no_steps_witness:
  "discover_steps Task_class = []
   \<and> status (result (final_task sample_lib ''2021-01-01T00:00:00'' ''2021-01-01T00:10:00''
        (Task_init ''1234'' ''2021-01-01T00:00:00'' Task_class) [])) = ERROR
   \<and> exit_code (result (final_task sample_lib ''2021-01-01T00:00:00'' ''2021-01-01T00:10:00''
        (Task_init ''1234'' ''2021-01-01T00:00:00'' Task_class) [])) = 1
   \<and> exit_message (result (final_task sample_lib ''2021-01-01T00:00:00'' ''2021-01-01T00:10:00''
        (Task_init ''1234'' ''2021-01-01T00:00:00'' Task_class) [])) = JStr ''No steps to execute''"
  using C3_no_steps[OF discover_steps_Task, where L = sample_lib
      and ts = "''2021-01-01T00:00:00''" and te = "''2021-01-01T00:10:00''" and uuid = "''1234''"
      and now = "''2021-01-01T00:00:00''" and files = "[]"] discover_steps_Task
  by simp

text \<open>
  C9. When the body of the step at position \<open>k\<close> of a fresh task raises, that step's
  result differs from the default one in its status only, which is ERROR: its data is
  still the empty mapping and its message the empty string. Every earlier step's result
  has status SUCCESS and holds the payload that step returned. At the level of
  \<open>_execute_step\<close>, for any task: a raising step leaves every other entry of \<open>data\<close> as it
  was and changes the status field only of its own.
\<close>

theorem C9_failing_step_frame:
  assumes "k < length (discover_steps c)"
    and "\<forall>i<k. \<exists>v. step_call c (discover_steps c ! i) = Some (Returns v)"
    and "step_call c (discover_steps c ! k) = Some (Raises e)"
  shows "map_of (data (result (final_task L ts te (Task_init uuid now c) files)))
           (discover_steps c ! k)
         = Some \<lparr>sr_message = JStr [], sr_status = Member ERROR, sr_data = JObj []\<rparr>
     \<and> (\<forall>i<k. \<forall>v. step_call c (discover_steps c ! i) = Some (Returns v) \<longrightarrow>
           map_of (data (result (final_task L ts te (Task_init uuid now c) files)))
             (discover_steps c ! i)
           = Some \<lparr>sr_message = JStr [], sr_status = Member SUCCESS, sr_data = v\<rparr>)
     \<and> (\<forall>t n m sr x. map_of (data (result t)) n = Some sr \<and> call_member m = Raises x \<longrightarrow>
           fst (execute_step t n m) = Some x
         \<and> map_of (data (result (snd (execute_step t n m))))
             = (map_of (data (result t)))(n \<mapsto> sr\<lparr>sr_status := Member ERROR\<rparr>))"
proof -
  note f = execute_failing_step[OF assms refl, where L = L and ts = ts and te = te and uuid = uuid
      and now = now and files = files]
  have a: "map_of (data (result (final_task L ts te (Task_init uuid now c) files)))
           (discover_steps c ! k)
         = Some \<lparr>sr_message = JStr [], sr_status = Member ERROR, sr_data = JObj []\<rparr>"
    using f(5) by (simp add: StepResult_default_def)
  have b: "map_of (data (result (final_task L ts te (Task_init uuid now c) files)))
             (discover_steps c ! i)
           = Some \<lparr>sr_message = JStr [], sr_status = Member SUCCESS, sr_data = v\<rparr>"
    if "i < k" "step_call c (discover_steps c ! i) = Some (Returns v)" for i v
  proof -
    have "discover_steps c ! i \<in> set (take k (discover_steps c))"
      using that(1) assms(1) by (auto simp: in_set_conv_nth)
    from f(6)[OF this that(2)] show ?thesis
      by (simp add: StepResult_default_def)
  qed
  have c: "fst (execute_step t n m) = Some x
         \<and> map_of (data (result (snd (execute_step t n m))))
             = (map_of (data (result t)))(n \<mapsto> sr\<lparr>sr_status := Member ERROR\<rparr>)"
    if "map_of (data (result t)) n = Some sr \<and> call_member m = Raises x" for t n m sr x
    using execute_step_Raises[of t n sr m x] that by auto
  show ?thesis
    using a b c by blast
qed

theorem C9_failing_step_frame_witness:
  "map_of (data (result (final_task sample_lib ''2021-01-01T00:00:00'' ''2021-01-01T00:10:00''
        (Task_init ''1234'' ''2021-01-01T00:00:00'' failing_class) []))) ''parse''
     = Some \<lparr>sr_message = JStr [], sr_status = Member ERROR, sr_data = JObj []\<rparr>
   \<and> map_of (data (result (final_task sample_lib ''2021-01-01T00:00:00'' ''2021-01-01T00:10:00''
        (Task_init ''1234'' ''2021-01-01T00:00:00'' failing_class) []))) ''fetch''
     = Some \<lparr>sr_message = JStr [], sr_status = Member SUCCESS, sr_data = JInt 1\<rparr>"
proof -
  have h1: "1 < length (discover_steps failing_class)"
    by (simp add: discover_steps_failing)
  have h2: "\<forall>i<1. \<exists>v. step_call failing_class (discover_steps failing_class ! i) = Some (Returns v)"
    by (simp add: discover_steps_failing step_call_failing)
  have h3: "step_call failing_class (discover_steps failing_class ! 1)
      = Some (Raises (Exn ValueError ''bad input''))"
    by (simp add: discover_steps_failing step_call_failing)
  note w = C9_failing_step_frame[OF h1 h2 h3, where L = sample_lib
      and ts = "''2021-01-01T00:00:00''" and te = "''2021-01-01T00:10:00''" and uuid = "''1234''"
      and now = "''2021-01-01T00:00:00''" and files = "[]"]
  from w have "step_call failing_class (discover_steps failing_class ! 0) = Some (Returns (JInt 1))
      \<longrightarrow> map_of (data (result (final_task sample_lib ''2021-01-01T00:00:00'' ''2021-01-01T00:10:00''
        (Task_init ''1234'' ''2021-01-01T00:00:00'' failing_class) [])))
          (discover_steps failing_class ! 0)
       = Some \<lparr>sr_message = JStr [], sr_status = Member SUCCESS, sr_data = JInt 1\<rparr>"
    by simp
  with w show ?thesis
    by (simp add: discover_steps_failing step_call_failing)
qed

section \<open>Artifacts\<close>

text \<open>
  C7. For every task and every source path that does not exist, \<open>add_artifact\<close> raises
  \<open>FileNotFoundError\<close> and leaves \<open>artifacts\<close> as it was; indeed the whole result record
  and the files are unchanged.
\<close>

theorem C7_add_artifact_missing_source:
  assumes "\<not> path_exists files path"
  shows "(\<exists>d. fst (add_artifact t path artifact_path files) = Some (Exn FileNotFoundError d))
     \<and> artifacts (result (fst (snd (add_artifact t path artifact_path files))))
         = artifacts (result t)
     \<and> result (fst (snd (add_artifact t path artifact_path files))) = result t
     \<and> snd (snd (add_artifact t path artifact_path files)) = files"
  using assms
  by (simp add: add_artifact_def rename_def path_exists_def makedirs_def log_def Let_def)

theorem C7_add_artifact_missing_source_witness:
  "\<not> path_exists [] ''test.txt''
   \<and> fst (add_artifact sample_task ''test.txt'' ''artifacts/'' [])
       = Some (Exn FileNotFoundError ''[Errno 2] No such file or directory: test.txt'')
   \<and> artifacts (result (fst (snd (add_artifact sample_task ''test.txt'' ''artifacts/'' []))))
       = JObj []"
proof -
  have h: "\<not> path_exists [] ''test.txt''"
    by (simp add: path_exists_def)
  have a: "artifacts (result sample_task) = JObj []"
    by (simp add: sample_task_def Task_init_def)
  have e: "fst (add_artifact sample_task ''test.txt'' ''artifacts/'' [])
       = Some (Exn FileNotFoundError ''[Errno 2] No such file or directory: test.txt'')"
    by (simp add: add_artifact_def rename_def makedirs_def Let_def)
  show ?thesis
    using C7_add_artifact_missing_source[OF h, of sample_task "''artifacts/''"] h a e by simp
qed

section \<open>Status queries\<close>

lemma concat_readlines: "concat (readlines s) = s"
  by (induction s) (auto split: list.splits)

lemma to_dict_JObj: "to_dict L r = Inr d \<Longrightarrow> \<exists>kvs. d = JObj kvs \<and> map_of kvs ''logs'' = None"
  by (auto simp: to_dict_def and_then_def split: sum.splits)

text \<open>
  C8. \<open>get_task_status\<close> raises the not-found \<open>ValueError\<close> for every identity absent from
  the registry. For a registered identity whose result serialises, the returned object is
  that serialisation followed by a field \<open>logs\<close>: the lines of the file
  \<open><logs_dir>/<identity>.log\<close> as \<open>readlines\<close> gives them when a logs directory is given
  and the file exists, and the empty list when no directory is given or there is no such
  file. Joined together, the lines are the content of the file.
\<close>

theorem C8_get_task_status:
  "(map_of (tasks m) tid = None \<longrightarrow>
      get_task_status L m tid folder files
        = Inl (Exn ValueError (''Task '' @ tid @ '' not found'')))
   \<and> (\<forall>task kvs. map_of (tasks m) tid = Some task \<and> to_dict L (result task) = Inr (JObj kvs) \<longrightarrow>
        get_task_status L m tid folder files
          = Inr (JObj (kvs @ [(''logs'', JArr (map JStr
              (case folder of
                 None \<Rightarrow> []
               | Some dir \<Rightarrow>
                  (if dir = [] then []
                   else case map_of files (path_join dir (tid @ ''.log'')) of
                          None \<Rightarrow> []
                        | Some content \<Rightarrow> readlines content))))])))
   \<and> (\<forall>content. concat (readlines content) = content)"
proof (intro conjI impI allI)
  assume "map_of (tasks m) tid = None"
  then show "get_task_status L m tid folder files
      = Inl (Exn ValueError (''Task '' @ tid @ '' not found''))"
    by (simp add: get_task_status_def)
next
  fix task kvs
  assume a: "map_of (tasks m) tid = Some task \<and> to_dict L (result task) = Inr (JObj kvs)"
  then have "map_of kvs ''logs'' = None"
    using to_dict_JObj[of L "result task" "JObj kvs"] by simp
  then have "''logs'' \<notin> fst ` set kvs"
    by (simp add: map_of_eq_None_iff)
  then have u: "AList.update ''logs'' v kvs = kvs @ [(''logs'', v)]" for v
    by (rule update_fresh)
  show "get_task_status L m tid folder files
          = Inr (JObj (kvs @ [(''logs'', JArr (map JStr
              (case folder of
                 None \<Rightarrow> []
               | Some dir \<Rightarrow>
                  (if dir = [] then []
                   else case map_of files (path_join dir (tid @ ''.log'')) of
                          None \<Rightarrow> []
                        | Some content \<Rightarrow> readlines content))))]))"
    using a u
    by (simp add: get_task_status_def and_then_def dict_or_def path_exists_def Let_def
        split: option.splits)
next
  fix content
  show "concat (readlines content) = content"
    by (rule concat_readlines)
qed

lemma result_sample_task:
  "result sample_task =
     \<lparr>task_type = JStr ''MyTask'', status = PENDING, exit_message = JNull,
      data = [(''step1'', StepResult_default)], created_at = JStr ''2021-01-01T00:00:00'',
      start_at = JNull, end_at = JNull, artifacts = JObj []\<rparr>"
  by (simp add: sample_task_def Task_init_def discover_steps_sample, simp add: sample_class_def)

lemma to_dict_sample: "to_dict sample_lib (result sample_task) = Inr sample_record"
  by (simp add: result_sample_task to_dict_def StepResult_default_def StepResult_to_dict_def
      and_then_def duration_def exit_code_def sample_record_def)

theorem C8_get_task_status_witness:
  "get_task_status sample_lib
      ((TaskManager_init ''artifacts/'' ''results/'')\<lparr>tasks := [(''task-1234'', sample_task)]\<rparr>)
      ''task-0000'' (Some ''logs/tasks'')
      [(''logs/tasks/task-1234.log'', ''log1'' @ [CHR 0x0A] @ ''log2'')]
     = Inl (Exn ValueError ''Task task-0000 not found'')
   \<and> get_task_status sample_lib
      ((TaskManager_init ''artifacts/'' ''results/'')\<lparr>tasks := [(''task-1234'', sample_task)]\<rparr>)
      ''task-1234'' (Some ''logs/tasks'')
      [(''logs/tasks/task-1234.log'', ''log1'' @ [CHR 0x0A] @ ''log2'')]
     = Inr (JObj (
         [(''task_type'', JStr ''MyTask''),
          (''status'', JStr ''PENDING''),
          (''exit_code'', JInt 0),
          (''exit_message'', JNull),
          (''data'', JObj [(''step1'',
              JObj [(''message'', JStr []), (''status'', JStr ''PENDING''), (''data'', JObj [])])]),
          (''created_at'', JStr ''2021-01-01T00:00:00''),
          (''start_at'', JNull),
          (''end_at'', JNull),
          (''duration'', JNull),
          (''artifacts'', JObj []),
          (''logs'', JArr [JStr (''log1'' @ [CHR 0x0A]), JStr ''log2''])]))"
proof -
  let ?m = "(TaskManager_init ''artifacts/'' ''results/'')\<lparr>tasks := [(''task-1234'', sample_task)]\<rparr>"
  let ?files = "[(''logs/tasks/task-1234.log'', ''log1'' @ [CHR 0x0A] @ ''log2'')]"
  note w0 = C8_get_task_status[of ?m "''task-0000''" sample_lib "Some ''logs/tasks''" ?files]
  note w1 = C8_get_task_status[of ?m "''task-1234''" sample_lib "Some ''logs/tasks''" ?files]
  have a: "get_task_status sample_lib ?m ''task-0000'' (Some ''logs/tasks'') ?files
     = Inl (Exn ValueError ''Task task-0000 not found'')"
    using w0 by (simp add: TaskManager_init_def)
  have t: "map_of (tasks ?m) ''task-1234'' = Some sample_task"
    by simp
  have d: "to_dict sample_lib (result sample_task)
      = Inr (JObj [(''task_type'', JStr ''MyTask''),
          (''status'', JStr ''PENDING''),
          (''exit_code'', JInt 0),
          (''exit_message'', JNull),
          (''data'', JObj [(''step1'',
              JObj [(''message'', JStr []), (''status'', JStr ''PENDING''), (''data'', JObj [])])]),
          (''created_at'', JStr ''2021-01-01T00:00:00''),
          (''start_at'', JNull),
          (''end_at'', JNull),
          (''duration'', JNull),
          (''artifacts'', JObj [])])"
    using to_dict_sample by (simp add: sample_record_def)
  have p: "path_join ''logs/tasks'' (''task-1234'' @ ''.log'') = ''logs/tasks/task-1234.log''"
    by (simp add: path_join_def)
  have b: "get_task_status sample_lib ?m ''task-1234'' (Some ''logs/tasks'') ?files
     = Inr (JObj (
         [(''task_type'', JStr ''MyTask''),
          (''status'', JStr ''PENDING''),
          (''exit_code'', JInt 0),
          (''exit_message'', JNull),
          (''data'', JObj [(''step1'',
              JObj [(''message'', JStr []), (''status'', JStr ''PENDING''), (''data'', JObj [])])]),
          (''created_at'', JStr ''2021-01-01T00:00:00''),
          (''start_at'', JNull),
          (''end_at'', JNull),
          (''duration'', JNull),
          (''artifacts'', JObj [])] @ [(''logs'', JArr (map JStr
              (case Some ''logs/tasks'' of
                 None \<Rightarrow> []
               | Some dir \<Rightarrow>
                  (if dir = [] then []
                   else case map_of ?files (path_join dir (''task-1234'' @ ''.log'')) of
                          None \<Rightarrow> []
                        | Some content \<Rightarrow> readlines content))))]))"
    using w1 t d by blast
  show ?thesis
    using a b p by simp
qed

section \<open>The status enum on construction\<close>

lemma STATUS_call_value: "STATUS_call (JStr (STATUS_value st)) = Inr st"
  by (cases st) simp_all

lemma dict_comp_fails:
  "(k, v) \<in> set kvs \<Longrightarrow> f v = Inl e \<Longrightarrow> \<exists>e'. dict_comp f kvs acc = Inl e'"
  by (induction f kvs acc rule: dict_comp.induct) (auto split: sum.splits)

lemma StepResult_kwargs_unknown:
  assumes "s \<notin> {''PENDING'', ''RUNNING'', ''SUCCESS'', ''ERROR''}"
    "map_of flds ''status'' = Some (JStr s)"
  shows "\<exists>e. StepResult_kwargs (JObj flds) = Inl e"
  using assms by (auto simp: StepResult_kwargs_def)

lemma load_from_file_unknown_status:
  assumes "s \<notin> {''PENDING'', ''RUNNING'', ''SUCCESS'', ''ERROR''}"
    "map_of files p = Some content" "json_loads L content = Some (JObj obj)"
    "map_of obj ''data'' = Some (JObj items)" "(name, JObj flds) \<in> set items"
    "map_of flds ''status'' = Some (JStr s)"
  shows "\<exists>e. load_from_file L uuid now p files = Inl e"
proof -
  from StepResult_kwargs_unknown[OF assms(1,6)] obtain e
    where "StepResult_kwargs (JObj flds) = Inl e" ..
  from dict_comp_fails[of name "JObj flds" items StepResult_kwargs e "[]", OF assms(5) this]
  obtain e' where "dict_comp StepResult_kwargs items [] = Inl e'" ..
  then show ?thesis
    using assms(2,3,4)
    by (simp add: load_from_file_def and_then_def Let_def split: sum.splits)
qed

text \<open>
  C10. Constructing a \<open>StepResult\<close> from a status string gives a result whose status is
  the member of the four-valued enum with that value; a string that is not one of
  PENDING, RUNNING, SUCCESS, ERROR makes the construction raise \<open>ValueError\<close>, so nothing
  is stored; and \<open>load_from_file\<close> on a file whose decoded record has, among its steps, one
  with such a status string raises as well.
\<close>

theorem C10_status_coercion:
  "StepResult_init msg (Uncoerced (JStr (STATUS_value st))) payload
     = Inr \<lparr>sr_message = msg, sr_status = Member st, sr_data = payload\<rparr>
   \<and> (\<forall>sr. StepResult_init msg (Uncoerced (JStr s)) payload = Inr sr \<longrightarrow>
         (\<exists>st'. sr_status sr = Member st' \<and> STATUS_value st' = s))
   \<and> (s \<notin> {''PENDING'', ''RUNNING'', ''SUCCESS'', ''ERROR''} \<longrightarrow>
         (\<exists>d. StepResult_init msg (Uncoerced (JStr s)) payload = Inl (Exn ValueError d)))
   \<and> (s \<notin> {''PENDING'', ''RUNNING'', ''SUCCESS'', ''ERROR''}
        \<and> map_of files p = Some content \<and> json_loads L content = Some (JObj obj)
        \<and> map_of obj ''data'' = Some (JObj items) \<and> (name, JObj flds) \<in> set items
        \<and> map_of flds ''status'' = Some (JStr s) \<longrightarrow>
         (\<exists>e. load_from_file L uuid now p files = Inl e))"
proof (intro conjI impI allI)
  show "StepResult_init msg (Uncoerced (JStr (STATUS_value st))) payload
     = Inr \<lparr>sr_message = msg, sr_status = Member st, sr_data = payload\<rparr>"
    by (simp add: STATUS_call_value del: STATUS_call.simps)
next
  fix sr
  assume "StepResult_init msg (Uncoerced (JStr s)) payload = Inr sr"
  then show "\<exists>st'. sr_status sr = Member st' \<and> STATUS_value st' = s"
    by (auto split: if_splits)
next
  assume "s \<notin> {''PENDING'', ''RUNNING'', ''SUCCESS'', ''ERROR''}"
  then show "\<exists>d. StepResult_init msg (Uncoerced (JStr s)) payload = Inl (Exn ValueError d)"
    by simp
next
  assume "s \<notin> {''PENDING'', ''RUNNING'', ''SUCCESS'', ''ERROR''}
        \<and> map_of files p = Some content \<and> json_loads L content = Some (JObj obj)
        \<and> map_of obj ''data'' = Some (JObj items) \<and> (name, JObj flds) \<in> set items
        \<and> map_of flds ''status'' = Some (JStr s)"
  then show "\<exists>e. load_from_file L uuid now p files = Inl e"
    using load_from_file_unknown_status[of s files p content L obj items name flds uuid now]
    by blast
qed

lemma text_neq: "sample_text \<noteq> unknown_status_text" "''{}'' \<noteq> sample_text"
    "''{}'' \<noteq> unknown_status_text"
  by (simp_all add: sample_text_def unknown_status_text_def)

theorem C10_status_coercion_witness:
  "StepResult_init (JStr []) (Uncoerced (JStr ''SUCCESS'')) (JObj [])
     = Inr \<lparr>sr_message = JStr [], sr_status = Member SUCCESS, sr_data = JObj []\<rparr>
   \<and> StepResult_init (JStr []) (Uncoerced (JStr ''DONE'')) (JObj [])
     = Inl (Exn ValueError (CHR 0x27 # ''DONE'' @ CHR 0x27 # '' is not a valid STATUS''))
   \<and> isl (load_from_file sample_lib ''1234'' ''2021-01-02T00:00:00'' ''results/task-1.json''
        [(''results/task-1.json'', unknown_status_text)])"
proof -
  note w = C10_status_coercion[where st = SUCCESS and msg = "JStr []" and payload = "JObj []"
      and s = "''DONE''" and files = "[(''results/task-1.json'', unknown_status_text)]"
      and p = "''results/task-1.json''" and content = unknown_status_text and L = sample_lib
      and obj = unknown_status_record
      and items = "[(''step1'',
          JObj [(''message'', JStr []), (''status'', JStr ''DONE''), (''data'', JObj [])])]"
      and name = "''step1''"
      and flds = "[(''message'', JStr []), (''status'', JStr ''DONE''), (''data'', JObj [])]"
      and uuid = "''1234''" and now = "''2021-01-02T00:00:00''"]
  have a: "StepResult_init (JStr []) (Uncoerced (JStr ''SUCCESS'')) (JObj [])
     = Inr \<lparr>sr_message = JStr [], sr_status = Member SUCCESS, sr_data = JObj []\<rparr>"
    using w by simp
  have b: "StepResult_init (JStr []) (Uncoerced (JStr ''DONE'')) (JObj [])
     = Inl (Exn ValueError (CHR 0x27 # ''DONE'' @ CHR 0x27 # '' is not a valid STATUS''))"
    by simp
  have l: "json_loads sample_lib unknown_status_text = Some (JObj unknown_status_record)"
    using text_neq by (simp add: sample_lib_def)
  have d: "map_of unknown_status_record ''data'' = Some (JObj [(''step1'',
          JObj [(''message'', JStr []), (''status'', JStr ''DONE''), (''data'', JObj [])])])"
    by (simp add: unknown_status_record_def)
  have "\<exists>e. load_from_file sample_lib ''1234'' ''2021-01-02T00:00:00'' ''results/task-1.json''
        [(''results/task-1.json'', unknown_status_text)] = Inl e"
    using w l d by simp
  then have c: "isl (load_from_file sample_lib ''1234'' ''2021-01-02T00:00:00''
        ''results/task-1.json'' [(''results/task-1.json'', unknown_status_text)])"
    by auto
  show ?thesis
    using a b c by simp
qed

section \<open>Saving and reloading a result\<close>

lemma step_roundtrip:
  assumes "StepResult_to_dict sr = Inr j"
  shows "StepResult_kwargs j = Inr sr"
proof -
  from assms obtain s where s: "sr_status sr = Member s"
    and j: "j = JObj [(''message'', sr_message sr), (''status'', JStr (STATUS_value s)),
                      (''data'', sr_data sr)]"
    by (auto simp: StepResult_to_dict_def split: status_attr.splits)
  have "StepResult_init (sr_message sr) (Uncoerced (JStr (STATUS_value s))) (sr_data sr) = Inr sr"
    using s by (simp add: STATUS_call_value del: STATUS_call.simps)
  then show ?thesis
    unfolding j by (simp add: StepResult_kwargs_def)
qed

lemma dict_comp_Inr:
  assumes "distinct (map fst kvs)" "fst ` set kvs \<inter> fst ` set acc = {}"
    "dict_comp f kvs acc = Inr res"
  shows "\<exists>mid. res = acc @ mid
     \<and> list_all2 (\<lambda>kv kw. fst kw = fst kv \<and> f (snd kv) = Inr (snd kw)) kvs mid"
  using assms
proof (induction kvs arbitrary: acc)
  case Nil
  then show ?case by simp
next
  case (Cons kv kvs)
  obtain k v where kv: "kv = (k, v)"
    by (cases kv)
  from Cons.prems(3) kv obtain w where w: "f v = Inr w"
    and rest: "dict_comp f kvs (AList.update k w acc) = Inr res"
    by (auto split: sum.splits)
  have k1: "k \<notin> fst ` set acc"
    using Cons.prems(2) kv by auto
  have u1: "AList.update k w acc = acc @ [(k, w)]"
    by (rule update_fresh[OF k1])
  have kn: "k \<notin> fst ` set kvs"
    using Cons.prems(1) kv by auto
  have d: "distinct (map fst kvs)"
    using Cons.prems(1) by simp
  have i1: "fst ` set kvs \<inter> fst ` set (acc @ [(k, w)]) = {}"
    using Cons.prems(2) kn by auto
  from Cons.IH[OF d i1] rest u1 obtain mid where
    mid: "res = (acc @ [(k, w)]) @ mid"
      "list_all2 (\<lambda>kv kw. fst kw = fst kv \<and> f (snd kv) = Inr (snd kw)) kvs mid"
    by auto
  have "res = acc @ ((k, w) # mid)"
    using mid(1) by simp
  moreover have "list_all2 (\<lambda>kv kw. fst kw = fst kv \<and> f (snd kv) = Inr (snd kw))
      (kv # kvs) ((k, w) # mid)"
    using mid(2) kv w by simp
  ultimately show ?case
    by blast
qed

lemma dict_comp_all_Inr:
  assumes "distinct (map fst mid)" "fst ` set mid \<inter> fst ` set acc = {}"
    "list_all2 (\<lambda>kw kv. fst kv = fst kw \<and> g (snd kw) = Inr (snd kv)) mid kvs"
  shows "dict_comp g mid acc = Inr (acc @ kvs)"
  using assms(3,1,2)
proof (induction mid kvs arbitrary: acc rule: list_all2_induct)
  case Nil
  then show ?case by simp
next
  case (Cons kw mid kv kvs)
  obtain k w where kw: "kw = (k, w)"
    by (cases kw)
  obtain k' v where kv: "kv = (k', v)"
    by (cases kv)
  have kk: "k' = k" and g: "g w = Inr v"
    using Cons.hyps(1) kw kv by auto
  have k1: "k \<notin> fst ` set acc"
    using Cons.prems(2) kw by auto
  have u1: "AList.update k v acc = acc @ [(k, v)]"
    by (rule update_fresh[OF k1])
  have kn: "k \<notin> fst ` set mid"
    using Cons.prems(1) kw by auto
  have d: "distinct (map fst mid)"
    using Cons.prems(1) by simp
  have i1: "fst ` set mid \<inter> fst ` set (acc @ [(k, v)]) = {}"
    using Cons.prems(2) kn by auto
  show ?case
    using Cons.IH[OF d i1] kw kv kk g u1 by simp
qed

lemma map_fst_list_all2:
  "list_all2 (\<lambda>kv kw. fst kw = fst kv \<and> P kv kw) kvs mid \<Longrightarrow> map fst mid = map fst kvs"
  by (induction kvs mid rule: list_all2_induct) auto

lemma data_roundtrip:
  assumes "distinct (map fst kvs)" "dict_comp StepResult_to_dict kvs [] = Inr mid"
  shows "dict_comp StepResult_kwargs mid [] = Inr kvs"
proof -
  from dict_comp_Inr[OF assms(1) _ assms(2)]
  have l: "list_all2 (\<lambda>kv kw. fst kw = fst kv \<and> StepResult_to_dict (snd kv) = Inr (snd kw)) kvs mid"
    by simp
  have keys: "map fst mid = map fst kvs"
    using map_fst_list_all2[OF l] .
  have "list_all2 (\<lambda>kv kw. fst kw = fst kv \<and> StepResult_kwargs (snd kw) = Inr (snd kv)) kvs mid"
    using l by (rule list_all2_mono) (auto dest: step_roundtrip)
  then have "list_all2 (\<lambda>kw kv. fst kv = fst kw \<and> StepResult_kwargs (snd kw) = Inr (snd kv)) mid kvs"
    by (simp add: list_all2_conv_all_nth)
  from dict_comp_all_Inr[OF _ _ this, of "[]"] assms(1) keys show ?thesis
    by simp
qed

lemma map_of_update_same: "map_of (AList.update k v al) k = Some v"
  by (simp add: update_conv')

text \<open>
  C6. When \<open>save_result\<close> has written the result of a task and the codec gives back the
  document it was given, \<open>load_from_file\<close> on the file written returns a task that is not
  executable and whose result record equals the original one: status, \<open>created_at\<close>,
  \<open>start_at\<close>, \<open>end_at\<close>, \<open>exit_message\<close>, \<open>artifacts\<close>, the task type, and for every step
  its message, status and data. The keys of \<open>data\<close> are distinct, as those of a dict are.
\<close>

theorem C6_save_load_roundtrip:
  assumes "distinct (map fst (data (result t)))"
    and "save_result L t dir files = (None, files')"
    and "\<forall>d. to_dict L (result t) = Inr d \<longrightarrow> json_loads L (json_dumps L d) = Some d"
  shows "\<exists>t'. load_from_file L uuid now (path_join dir (task_id t @ ''.json'')) files' = Inr t'
     \<and> \<not> is_executable t' \<and> result t' = result t"
proof -
  let ?file = "path_join dir (task_id t @ ''.json'')"
  from assms(2) obtain d where d: "to_dict L (result t) = Inr d"
    and f: "files' = AList.update ?file (json_dumps L d)
              (AList.update ?file [] (makedirs dir files))"
    by (auto simp: save_result_def Let_def split: sum.splits)
  have rd: "map_of files' ?file = Some (json_dumps L d)"
    unfolding f by (rule map_of_update_same)
  have ld: "json_loads L (json_dumps L d) = Some d"
    using assms(3) d by simp
  from d obtain mid dur where mid: "dict_comp StepResult_to_dict (data (result t)) [] = Inr mid"
    and dd: "d = JObj [(''task_type'', task_type (result t)),
                (''status'', JStr (STATUS_value (status (result t)))),
                (''exit_code'', JInt (exit_code (result t))),
                (''exit_message'', exit_message (result t)),
                (''data'', JObj mid),
                (''created_at'', created_at (result t)),
                (''start_at'', start_at (result t)),
                (''end_at'', end_at (result t)),
                (''duration'', dur),
                (''artifacts'', artifacts (result t))]"
    by (auto simp: to_dict_def and_then_def split: sum.splits)
  have reload: "dict_comp StepResult_kwargs mid [] = Inr (data (result t))"
    by (rule data_roundtrip[OF assms(1) mid])
  show ?thesis
    using rd ld reload unfolding dd
    by (simp add: load_from_file_def and_then_def Let_def STATUS_call_value
        del: STATUS_call.simps)
qed

theorem C6_save_load_roundtrip_witness:
  "save_result sample_lib sample_task ''results/'' []
     = (None, [(''results/task-1234.json'', sample_text)])
   \<and> (case load_from_file sample_lib ''5678'' ''2021-01-02T00:00:00'' ''results/task-1234.json''
          [(''results/task-1234.json'', sample_text)] of
        Inl e \<Rightarrow> False
      | Inr t' \<Rightarrow> \<not> is_executable t' \<and> result t' = result sample_task)"
proof -
  have h1: "distinct (map fst (data (result sample_task)))"
    by (simp add: result_sample_task)
  have id: "task_id sample_task = ''task-1234''"
    by (simp add: sample_task_def Task_init_def)
  have p: "path_join ''results/'' (''task-1234'' @ ''.json'') = ''results/task-1234.json''"
    by (simp add: path_join_def)
  have h2: "save_result sample_lib sample_task ''results/'' []
     = (None, [(''results/task-1234.json'', sample_text)])"
  proof -
    have dmp: "json_dumps sample_lib sample_record = sample_text"
      by (simp add: sample_lib_def)
    show ?thesis
      using p by (simp add: save_result_def to_dict_sample id makedirs_def dmp Let_def)
  qed
  have h3: "\<forall>d. to_dict sample_lib (result sample_task) = Inr d
      \<longrightarrow> json_loads sample_lib (json_dumps sample_lib d) = Some d"
  proof -
    have "json_loads sample_lib (json_dumps sample_lib sample_record) = Some sample_record"
      by (simp add: sample_lib_def)
    then show ?thesis
      by (simp add: to_dict_sample)
  qed
  from C6_save_load_roundtrip[OF h1 h2 h3, where uuid = "''5678''"
      and now = "''2021-01-02T00:00:00''"] id p
  have "\<exists>t'. load_from_file sample_lib ''5678'' ''2021-01-02T00:00:00'' ''results/task-1234.json''
          [(''results/task-1234.json'', sample_text)] = Inr t'
     \<and> \<not> is_executable t' \<and> result t' = result sample_task"
    by simp
  then show ?thesis
    using h2 by auto
qed

section \<open>Loading the result directory\<close>

lemma keys_foldl_register:
  "fst ` set (foldl (register L fresh files dir) reg names)
     = fst ` set reg \<union> split_dot_first ` {g \<in> set names. \<not> isl (loaded L fresh files dir g)}"
proof (induction names arbitrary: reg)
  case Nil
  then show ?case by simp
next
  case (Cons g names)
  show ?case
  proof (cases "loaded L fresh files dir g")
    case (Inl e)
    then have "register L fresh files dir reg g = reg"
      by (simp add: register_def)
    then show ?thesis
      using Cons.IH[of reg] Inl by auto
  next
    case (Inr task)
    then have r: "register L fresh files dir reg g = AList.update (split_dot_first g) task reg"
      by (simp add: register_def)
    show ?thesis
      using Cons.IH[of "AList.update (split_dot_first g) task reg"] Inr
      unfolding foldl_Cons r by (auto simp: dom_update)
  qed
qed

lemma path_result_load_entries:
  "path_result (snd (load_entries L fresh files m names)) = path_result m"
proof (induction names arbitrary: m)
  case Nil
  then show ?case by simp
next
  case (Cons f names)
  show ?case
    using Cons.IH by (auto simp: Let_def mgr_log_def split: sum.splits)
qed

lemma load_entries_skip:
  assumes "loaded L fresh files (path_result m) g = Inl e" "exn_cls e = JSONDecodeError"
  shows "load_entries L fresh files m (g # rest)
     = load_entries L fresh files
         (mgr_log (Error (''Error loading task '' @ split_dot_first g @ '' from disk''))
            (mgr_log (Info (''Loading task '' @ split_dot_first g @ '' from disk'')) m)) rest"
  using assms by (simp add: loaded_def Let_def mgr_log_def)

lemma load_entries_abort:
  assumes "loaded L fresh files (path_result m) g = Inl e" "exn_cls e \<noteq> JSONDecodeError"
  shows "load_entries L fresh files m (g # rest)
     = (Some e, mgr_log (Info (''Loading task '' @ split_dot_first g @ '' from disk'')) m)"
  using assms by (simp add: loaded_def Let_def mgr_log_def)

lemma load_entries_store:
  assumes "loaded L fresh files (path_result m) g = Inr task"
  shows "load_entries L fresh files m (g # rest)
     = load_entries L fresh files
         ((mgr_log (Info (''Loading task '' @ split_dot_first g @ '' from disk'')) m)
            \<lparr>tasks := AList.update (split_dot_first g) task (tasks m)\<rparr>) rest"
  using assms by (simp add: loaded_def Let_def mgr_log_def)

text \<open>
  A scan over entries none of which fails in another way than by \<open>JSONDecodeError\<close>: it
  ends normally, stores what reconstructs and logs an error for what does not decode.
\<close>

lemma load_entries_scan:
  assumes "\<forall>g \<in> set names. \<forall>e. loaded L fresh files (path_result m) g = Inl e
             \<longrightarrow> exn_cls e = JSONDecodeError"
  shows "\<exists>m'. load_entries L fresh files m names = (None, m')
     \<and> tasks m' = foldl (register L fresh files (path_result m)) (tasks m) names
     \<and> set (mgr_logged m) \<subseteq> set (mgr_logged m')
     \<and> (\<forall>g \<in> set names. isl (loaded L fresh files (path_result m) g) \<longrightarrow>
           Error (''Error loading task '' @ split_dot_first g @ '' from disk'')
             \<in> set (mgr_logged m'))"
  using assms
proof (induction names arbitrary: m)
  case Nil
  then show ?case by simp
next
  case (Cons f names)
  let ?m1 = "mgr_log (Info (''Loading task '' @ split_dot_first f @ '' from disk'')) m"
  show ?case
  proof (cases "loaded L fresh files (path_result m) f")
    case (Inl e)
    then have c: "exn_cls e = JSONDecodeError"
      using Cons.prems by simp
    let ?m2 = "mgr_log (Error (''Error loading task '' @ split_dot_first f @ '' from disk'')) ?m1"
    have p: "path_result ?m2 = path_result m"
      by (simp add: mgr_log_def)
    have step: "load_entries L fresh files m (f # names) = load_entries L fresh files ?m2 names"
      by (rule load_entries_skip[OF Inl c])
    from Cons.IH[of ?m2] Cons.prems p obtain m' where
      m': "load_entries L fresh files ?m2 names = (None, m')"
        "tasks m' = foldl (register L fresh files (path_result m)) (tasks ?m2) names"
        "set (mgr_logged ?m2) \<subseteq> set (mgr_logged m')"
        "\<forall>g \<in> set names. isl (loaded L fresh files (path_result m) g) \<longrightarrow>
           Error (''Error loading task '' @ split_dot_first g @ '' from disk'')
             \<in> set (mgr_logged m')"
      by auto
    have t: "tasks ?m2 = register L fresh files (path_result m) (tasks m) f"
      using Inl by (simp add: register_def mgr_log_def)
    have l: "Error (''Error loading task '' @ split_dot_first f @ '' from disk'')
        \<in> set (mgr_logged m')"
      using m'(3) by (auto simp: mgr_log_def)
    have s: "set (mgr_logged m) \<subseteq> set (mgr_logged m')"
      using m'(3) by (auto simp: mgr_log_def)
    show ?thesis
      using step m'(1,2,4) t l s by auto
  next
    case (Inr task)
    let ?m2 = "?m1\<lparr>tasks := AList.update (split_dot_first f) task (tasks m)\<rparr>"
    have p: "path_result ?m2 = path_result m"
      by (simp add: mgr_log_def)
    have step: "load_entries L fresh files m (f # names) = load_entries L fresh files ?m2 names"
      by (rule load_entries_store[OF Inr])
    from Cons.IH[of ?m2] Cons.prems p obtain m' where
      m': "load_entries L fresh files ?m2 names = (None, m')"
        "tasks m' = foldl (register L fresh files (path_result m)) (tasks ?m2) names"
        "set (mgr_logged ?m2) \<subseteq> set (mgr_logged m')"
        "\<forall>g \<in> set names. isl (loaded L fresh files (path_result m) g) \<longrightarrow>
           Error (''Error loading task '' @ split_dot_first g @ '' from disk'')
             \<in> set (mgr_logged m')"
      by auto
    have t: "tasks ?m2 = register L fresh files (path_result m) (tasks m) f"
      using Inr by (simp add: register_def mgr_log_def)
    have s: "set (mgr_logged m) \<subseteq> set (mgr_logged m')"
      using m'(3) by (auto simp: mgr_log_def)
    show ?thesis
      using step m'(1,2,4) t s Inr by auto
  qed
qed

lemma load_entries_append:
  assumes "load_entries L fresh files m pre = (None, m')"
  shows "load_entries L fresh files m (pre @ post) = load_entries L fresh files m' post"
  using assms
proof (induction pre arbitrary: m)
  case Nil
  then show ?case by simp
next
  case (Cons f pre)
  show ?case
  proof (cases "loaded L fresh files (path_result m) f")
    case (Inl e)
    show ?thesis
    proof (cases "exn_cls e = JSONDecodeError")
      case True
      show ?thesis
        using Cons.prems Cons.IH
        unfolding append_Cons load_entries_skip[OF Inl True] by simp
    next
      case False
      show ?thesis
        using Cons.prems unfolding load_entries_abort[OF Inl False] by simp
    qed
  next
    case (Inr task)
    show ?thesis
      using Cons.prems Cons.IH
      unfolding append_Cons load_entries_store[OF Inr] by simp
  qed
qed

text \<open>The scan up to an entry, when no earlier entry has ended it.\<close>

lemma load_entries_reach:
  assumes "\<forall>h \<in> set pre. \<forall>x. loaded L fresh files (path_result m) h = Inl x
             \<longrightarrow> exn_cls x = JSONDecodeError"
  shows "load_entries L fresh files m (pre @ post)
           = load_entries L fresh files (snd (load_entries L fresh files m pre)) post"
    and "tasks (snd (load_entries L fresh files m pre))
           = foldl (register L fresh files (path_result m)) (tasks m) pre"
    and "\<forall>h \<in> set pre. isl (loaded L fresh files (path_result m) h) \<longrightarrow>
           Error (''Error loading task '' @ split_dot_first h @ '' from disk'')
             \<in> set (mgr_logged (snd (load_entries L fresh files m pre)))"
proof -
  from load_entries_scan[OF assms] obtain m' where
    m': "load_entries L fresh files m pre = (None, m')"
      "tasks m' = foldl (register L fresh files (path_result m)) (tasks m) pre"
      "\<forall>g \<in> set pre. isl (loaded L fresh files (path_result m) g) \<longrightarrow>
           Error (''Error loading task '' @ split_dot_first g @ '' from disk'')
             \<in> set (mgr_logged m')"
    by blast
  show "load_entries L fresh files m (pre @ post)
           = load_entries L fresh files (snd (load_entries L fresh files m pre)) post"
    using load_entries_append[OF m'(1)] m'(1) by simp
  show "tasks (snd (load_entries L fresh files m pre))
           = foldl (register L fresh files (path_result m)) (tasks m) pre"
    using m'(1,2) by simp
  show "\<forall>h \<in> set pre. isl (loaded L fresh files (path_result m) h) \<longrightarrow>
           Error (''Error loading task '' @ split_dot_first h @ '' from disk'')
             \<in> set (mgr_logged (snd (load_entries L fresh files m pre)))"
    using m'(1,3) by simp
qed

lemma listdir_sample_results:
  "listdir ''results/'' sample_results = Inr [''a.json'', ''b.json'']"
  by (simp add: listdir_def path_join_def sample_results_def is_directory_def strip_slashes_def)

lemma listdir_mixed_results:
  "listdir ''results/'' mixed_results = Inr [''bad.json'', ''b.json'']"
  by (simp add: listdir_def path_join_def mixed_results_def is_directory_def strip_slashes_def)

lemma listdir_nested_results:
  "listdir ''results/'' nested_results = Inr [''bad.json'', ''sub'', ''b.json'']"
  by (simp add: listdir_def path_join_def nested_results_def is_directory_def strip_slashes_def)

lemma listdir_missing:
  "listdir ''results/'' [] = Inl (Exn FileNotFoundError ''[Errno 2] No such file or directory: results/'')"
  by (simp add: listdir_def path_join_def is_directory_def strip_slashes_def)

lemma load_empty_object:
  "load_from_file sample_lib u n ''results/a.json'' sample_results
   = Inl (Exn KeyError (CHR 0x27 # ''task_type'' @ [CHR 0x27]))"
  using text_neq
  by (simp add: load_from_file_def sample_lib_def and_then_def Let_def sample_results_def)

lemma load_sample_text:
  assumes "map_of files p = Some sample_text"
  shows "load_from_file sample_lib u n p files
     = Inr ((Task_init u n Task_class)\<lparr>task_id := removesuffix ''.json'' (basename p),
          result := result sample_task, is_executable := False\<rparr>)"
  using assms
  by (simp add: load_from_file_def sample_lib_def and_then_def Let_def sample_record_def
      StepResult_kwargs_def result_sample_task StepResult_default_def)

lemma not_json_neq: "''{not json'' \<noteq> sample_text" "''{not json'' \<noteq> unknown_status_text"
  by (simp_all add: sample_text_def unknown_status_text_def)

lemma load_undecodable:
  assumes "map_of files p = Some ''{not json''"
  shows "load_from_file sample_lib u n p files = Inl (Exn JSONDecodeError ''Expecting value'')"
  using assms not_json_neq by (simp add: load_from_file_def sample_lib_def)

lemma load_sub_directory:
  "load_from_file sample_lib u n ''results/sub'' nested_results
     = Inl (Exn IsADirectoryError ''[Errno 21] Is a directory: results/sub'')"
  by (simp add: load_from_file_def nested_results_def is_directory_def path_join_def)

text \<open>
  C5, as stated, fails: the record \<open>a.json\<close> holds the JSON object \<open>{}\<close>, so its
  reconstruction fails with \<open>KeyError\<close>; \<open>load_from_disk\<close> lets that exception out, no
  error is logged, and the scan ends there: the entry \<open>b.json\<close>, which reconstructs on its
  own, is never visited and the registry stays empty.
\<close>

theorem C5_counterexample:
  "load_from_disk sample_lib sample_fresh (TaskManager_init ''artifacts/'' ''results/'')
      sample_results
     = (Some (Exn KeyError (CHR 0x27 # ''task_type'' @ [CHR 0x27])),
        \<lparr>tasks = [], path_artifact = ''artifacts/'', path_result = ''results/'',
         mgr_logged = [Info ''Loading task a from disk'']\<rparr>)
   \<and> listdir ''results/'' sample_results = Inr [''a.json'', ''b.json'']
   \<and> \<not> isl (load_from_file sample_lib (fst (sample_fresh ''b.json''))
        (snd (sample_fresh ''b.json'')) ''results/b.json'' sample_results)"
proof -
  have p: "path_join ''results/'' ''a.json'' = ''results/a.json''"
    by (simp add: path_join_def)
  have a: "load_from_disk sample_lib sample_fresh (TaskManager_init ''artifacts/'' ''results/'')
      sample_results
     = (Some (Exn KeyError (CHR 0x27 # ''task_type'' @ [CHR 0x27])),
        \<lparr>tasks = [], path_artifact = ''artifacts/'', path_result = ''results/'',
         mgr_logged = [Info ''Loading task a from disk'']\<rparr>)"
    by (simp add: load_from_disk_def listdir_sample_results TaskManager_init_def mgr_log_def
        split_dot_first_def p load_empty_object Let_def)
  have "map_of sample_results ''results/b.json'' = Some sample_text"
    by (simp add: sample_results_def)
  from load_sample_text[OF this]
  have b: "\<not> isl (load_from_file sample_lib (fst (sample_fresh ''b.json''))
        (snd (sample_fresh ''b.json'')) ''results/b.json'' sample_results)"
    by simp
  show ?thesis
    using a b listdir_sample_results by simp
qed

text \<open>
  C5, amended. \<open>load_from_disk\<close> visits the entries of the result directory in the order
  of the listing, up to the first one that fails with an exception other than
  \<open>JSONDecodeError\<close>.
  \<^item> When the directory cannot be listed, \<open>load_from_disk\<close> raises that error and the
    manager is unchanged.
  \<^item> When the scan reaches a record that does not decode as JSON, the error is logged and
    the record skipped: the scan goes on with the entries after it, from a manager that
    differs from the one that reached the record in its log only, so the record adds
    nothing to the registry.
  \<^item> When the scan reaches an entry that fails in any other way, \<open>load_from_disk\<close> raises
    that exception: the entries after it are not visited, and the registry holds what the
    entries before it gave.
  \<^item> When no entry fails in another way than by \<open>JSONDecodeError\<close>, \<open>load_from_disk\<close>
    returns normally; the registry is the old one with each entry that reconstructs stored
    under its key, so its keys are the old keys and the keys of those entries; and for each
    record that does not decode the error is in the log.
  The scan reaches an entry when no entry before it fails in another way than by
  \<open>JSONDecodeError\<close>.
\<close>

theorem C5_undecodable_records_skipped:
  "(\<forall>e. listdir (path_result m) files = Inl e \<longrightarrow>
       load_from_disk L fresh m files = (Some e, m))
   \<and> (\<forall>pre g post e.
        listdir (path_result m) files = Inr (pre @ g # post)
        \<and> (\<forall>h \<in> set pre. \<forall>x. loaded L fresh files (path_result m) h = Inl x
              \<longrightarrow> exn_cls x = JSONDecodeError)
        \<and> loaded L fresh files (path_result m) g = Inl e \<and> exn_cls e = JSONDecodeError
        \<longrightarrow> load_from_disk L fresh m files
              = load_entries L fresh files
                  (mgr_log (Error (''Error loading task '' @ split_dot_first g @ '' from disk''))
                     (mgr_log (Info (''Loading task '' @ split_dot_first g @ '' from disk''))
                        (snd (load_entries L fresh files m pre)))) post
          \<and> tasks (mgr_log (Error (''Error loading task '' @ split_dot_first g @ '' from disk''))
                     (mgr_log (Info (''Loading task '' @ split_dot_first g @ '' from disk''))
                        (snd (load_entries L fresh files m pre))))
              = foldl (register L fresh files (path_result m)) (tasks m) pre)
   \<and> (\<forall>pre g post e.
        listdir (path_result m) files = Inr (pre @ g # post)
        \<and> (\<forall>h \<in> set pre. \<forall>x. loaded L fresh files (path_result m) h = Inl x
              \<longrightarrow> exn_cls x = JSONDecodeError)
        \<and> loaded L fresh files (path_result m) g = Inl e \<and> exn_cls e \<noteq> JSONDecodeError
        \<longrightarrow> load_from_disk L fresh m files
              = (Some e, mgr_log (Info (''Loading task '' @ split_dot_first g @ '' from disk''))
                           (snd (load_entries L fresh files m pre)))
          \<and> tasks (snd (load_from_disk L fresh m files))
              = foldl (register L fresh files (path_result m)) (tasks m) pre
          \<and> (\<forall>h \<in> set pre. isl (loaded L fresh files (path_result m) h) \<longrightarrow>
                Error (''Error loading task '' @ split_dot_first h @ '' from disk'')
                  \<in> set (mgr_logged (snd (load_from_disk L fresh m files)))))
   \<and> (\<forall>names.
        listdir (path_result m) files = Inr names
        \<and> (\<forall>g \<in> set names. \<forall>e. loaded L fresh files (path_result m) g = Inl e
              \<longrightarrow> exn_cls e = JSONDecodeError)
        \<longrightarrow> fst (load_from_disk L fresh m files) = None
          \<and> tasks (snd (load_from_disk L fresh m files))
              = foldl (register L fresh files (path_result m)) (tasks m) names
          \<and> fst ` set (tasks (snd (load_from_disk L fresh m files)))
              = fst ` set (tasks m)
                \<union> split_dot_first ` {g \<in> set names.
                                        \<not> isl (loaded L fresh files (path_result m) g)}
          \<and> (\<forall>g \<in> set names. isl (loaded L fresh files (path_result m) g) \<longrightarrow>
                Error (''Error loading task '' @ split_dot_first g @ '' from disk'')
                  \<in> set (mgr_logged (snd (load_from_disk L fresh m files)))))"
proof (intro conjI allI impI)
  fix e
  assume "listdir (path_result m) files = Inl e"
  then show "load_from_disk L fresh m files = (Some e, m)"
    by (simp add: load_from_disk_def)
next
  fix pre g post e
  assume a: "listdir (path_result m) files = Inr (pre @ g # post)
        \<and> (\<forall>h \<in> set pre. \<forall>x. loaded L fresh files (path_result m) h = Inl x
              \<longrightarrow> exn_cls x = JSONDecodeError)
        \<and> loaded L fresh files (path_result m) g = Inl e \<and> exn_cls e = JSONDecodeError"
  let ?m1 = "snd (load_entries L fresh files m pre)"
  from a have pre: "\<forall>h \<in> set pre. \<forall>x. loaded L fresh files (path_result m) h = Inl x
              \<longrightarrow> exn_cls x = JSONDecodeError"
    by blast
  note r = load_entries_reach[OF pre]
  have g: "loaded L fresh files (path_result ?m1) g = Inl e"
    using a by (simp add: path_result_load_entries)
  from a have c: "exn_cls e = JSONDecodeError"
    by blast
  have "load_from_disk L fresh m files = load_entries L fresh files ?m1 (g # post)"
    using a r(1)[of "g # post"] by (simp add: load_from_disk_def)
  then show "load_from_disk L fresh m files
              = load_entries L fresh files
                  (mgr_log (Error (''Error loading task '' @ split_dot_first g @ '' from disk''))
                     (mgr_log (Info (''Loading task '' @ split_dot_first g @ '' from disk''))
                        (snd (load_entries L fresh files m pre)))) post"
    using load_entries_skip[OF g c] by simp
  show "tasks (mgr_log (Error (''Error loading task '' @ split_dot_first g @ '' from disk''))
                     (mgr_log (Info (''Loading task '' @ split_dot_first g @ '' from disk''))
                        (snd (load_entries L fresh files m pre))))
              = foldl (register L fresh files (path_result m)) (tasks m) pre"
    using r(2) by (simp add: mgr_log_def)
next
  fix pre g post e
  assume a: "listdir (path_result m) files = Inr (pre @ g # post)
        \<and> (\<forall>h \<in> set pre. \<forall>x. loaded L fresh files (path_result m) h = Inl x
              \<longrightarrow> exn_cls x = JSONDecodeError)
        \<and> loaded L fresh files (path_result m) g = Inl e \<and> exn_cls e \<noteq> JSONDecodeError"
  let ?m1 = "snd (load_entries L fresh files m pre)"
  from a have pre: "\<forall>h \<in> set pre. \<forall>x. loaded L fresh files (path_result m) h = Inl x
              \<longrightarrow> exn_cls x = JSONDecodeError"
    by blast
  note r = load_entries_reach[OF pre]
  have g: "loaded L fresh files (path_result ?m1) g = Inl e"
    using a by (simp add: path_result_load_entries)
  from a have c: "exn_cls e \<noteq> JSONDecodeError"
    by blast
  have "load_from_disk L fresh m files = load_entries L fresh files ?m1 (g # post)"
    using a r(1)[of "g # post"] by (simp add: load_from_disk_def)
  then have d: "load_from_disk L fresh m files
              = (Some e, mgr_log (Info (''Loading task '' @ split_dot_first g @ '' from disk''))
                           (snd (load_entries L fresh files m pre)))"
    using load_entries_abort[OF g c] by simp
  show "load_from_disk L fresh m files
              = (Some e, mgr_log (Info (''Loading task '' @ split_dot_first g @ '' from disk''))
                           (snd (load_entries L fresh files m pre)))"
    by (rule d)
  show "tasks (snd (load_from_disk L fresh m files))
              = foldl (register L fresh files (path_result m)) (tasks m) pre"
    unfolding d using r(2) by (simp add: mgr_log_def)
  show "\<forall>h \<in> set pre. isl (loaded L fresh files (path_result m) h) \<longrightarrow>
                Error (''Error loading task '' @ split_dot_first h @ '' from disk'')
                  \<in> set (mgr_logged (snd (load_from_disk L fresh m files)))"
    unfolding d using r(3) by (simp add: mgr_log_def)
next
  fix names
  assume a: "listdir (path_result m) files = Inr names
        \<and> (\<forall>g \<in> set names. \<forall>e. loaded L fresh files (path_result m) g = Inl e
              \<longrightarrow> exn_cls e = JSONDecodeError)"
  then have ok: "\<forall>g \<in> set names. \<forall>e. loaded L fresh files (path_result m) g = Inl e
              \<longrightarrow> exn_cls e = JSONDecodeError"
    by blast
  from load_entries_scan[OF ok] obtain m' where
    m': "load_entries L fresh files m names = (None, m')"
      "tasks m' = foldl (register L fresh files (path_result m)) (tasks m) names"
      "\<forall>g \<in> set names. isl (loaded L fresh files (path_result m) g) \<longrightarrow>
           Error (''Error loading task '' @ split_dot_first g @ '' from disk'')
             \<in> set (mgr_logged m')"
    by blast
  have d: "load_from_disk L fresh m files = (None, m')"
    using a m'(1) by (simp add: load_from_disk_def)
  show "fst (load_from_disk L fresh m files) = None"
    using d by simp
  show "tasks (snd (load_from_disk L fresh m files))
              = foldl (register L fresh files (path_result m)) (tasks m) names"
    using d m'(2) by simp
  show "fst ` set (tasks (snd (load_from_disk L fresh m files)))
              = fst ` set (tasks m)
                \<union> split_dot_first ` {g \<in> set names.
                                        \<not> isl (loaded L fresh files (path_result m) g)}"
    using d m'(2) keys_foldl_register[of L fresh files "path_result m" "tasks m" names] by simp
  show "\<forall>g \<in> set names. isl (loaded L fresh files (path_result m) g) \<longrightarrow>
                Error (''Error loading task '' @ split_dot_first g @ '' from disk'')
                  \<in> set (mgr_logged (snd (load_from_disk L fresh m files)))"
    using d m'(3) by simp
qed

text \<open>The example directories, entry by entry.\<close>

lemma nested_bad:
  "loaded sample_lib sample_fresh nested_results ''results/'' ''bad.json''
      = Inl (Exn JSONDecodeError ''Expecting value'')"
proof -
  have p: "path_join ''results/'' ''bad.json'' = ''results/bad.json''"
    by (simp add: path_join_def)
  have "map_of nested_results ''results/bad.json'' = Some ''{not json''"
    by (simp add: nested_results_def)
  from load_undecodable[OF this] show ?thesis
    by (simp add: loaded_def p)
qed

lemma nested_sub:
  "loaded sample_lib sample_fresh nested_results ''results/'' ''sub''
      = Inl (Exn IsADirectoryError ''[Errno 21] Is a directory: results/sub'')"
proof -
  have p: "path_join ''results/'' ''sub'' = ''results/sub''"
    by (simp add: path_join_def)
  show ?thesis
    by (simp add: loaded_def p load_sub_directory)
qed

lemma mixed_bad:
  "loaded sample_lib sample_fresh mixed_results ''results/'' ''bad.json''
      = Inl (Exn JSONDecodeError ''Expecting value'')"
proof -
  have p: "path_join ''results/'' ''bad.json'' = ''results/bad.json''"
    by (simp add: path_join_def)
  have "map_of mixed_results ''results/bad.json'' = Some ''{not json''"
    by (simp add: mixed_results_def)
  from load_undecodable[OF this] show ?thesis
    by (simp add: loaded_def p)
qed

lemma mixed_good:
  "loaded sample_lib sample_fresh mixed_results ''results/'' ''b.json''
      = Inr ((Task_init (fst (sample_fresh ''b.json'')) (snd (sample_fresh ''b.json'')) Task_class)
          \<lparr>task_id := ''b'', result := result sample_task, is_executable := False\<rparr>)"
proof -
  have p: "path_join ''results/'' ''b.json'' = ''results/b.json''"
    by (simp add: path_join_def)
  have b: "removesuffix ''.json'' (basename ''results/b.json'') = ''b''"
    by (simp add: removesuffix_def basename_def)
  have "map_of mixed_results ''results/b.json'' = Some sample_text"
    by (simp add: mixed_results_def)
  from load_sample_text[OF this] show ?thesis
    by (simp add: loaded_def p b)
qed

lemma scan_nested_bad:
  "load_entries sample_lib sample_fresh nested_results
      (TaskManager_init ''artifacts/'' ''results/'') [''bad.json'']
     = (None, \<lparr>tasks = [], path_artifact = ''artifacts/'', path_result = ''results/'',
          mgr_logged = [Info ''Loading task bad from disk'',
                        Error ''Error loading task bad from disk'']\<rparr>)"
proof -
  have pr: "path_result (TaskManager_init ''artifacts/'' ''results/'') = ''results/''"
    by (simp add: TaskManager_init_def)
  have s: "split_dot_first ''bad.json'' = ''bad''"
    by (simp add: split_dot_first_def)
  have "load_entries sample_lib sample_fresh nested_results
      (TaskManager_init ''artifacts/'' ''results/'') [''bad.json'']
     = load_entries sample_lib sample_fresh nested_results
         (mgr_log (Error (''Error loading task '' @ split_dot_first ''bad.json'' @ '' from disk''))
            (mgr_log (Info (''Loading task '' @ split_dot_first ''bad.json'' @ '' from disk''))
               (TaskManager_init ''artifacts/'' ''results/''))) []"
    by (rule load_entries_skip[where e = "Exn JSONDecodeError ''Expecting value''"])
       (simp_all add: pr nested_bad)
  then show ?thesis
    by (simp add: s TaskManager_init_def mgr_log_def)
qed


theorem C5_undecodable_records_skipped_witness:
  "load_from_disk sample_lib sample_fresh (TaskManager_init ''artifacts/'' ''results/'') []
     = (Some (Exn FileNotFoundError ''[Errno 2] No such file or directory: results/''),
        TaskManager_init ''artifacts/'' ''results/'')
   \<and> load_from_disk sample_lib sample_fresh (TaskManager_init ''artifacts/'' ''results/'')
        nested_results
     = load_entries sample_lib sample_fresh nested_results
         \<lparr>tasks = [], path_artifact = ''artifacts/'', path_result = ''results/'',
          mgr_logged = [Info ''Loading task bad from disk'',
                        Error ''Error loading task bad from disk'']\<rparr>
         [''sub'', ''b.json'']
   \<and> load_from_disk sample_lib sample_fresh (TaskManager_init ''artifacts/'' ''results/'')
        nested_results
     = (Some (Exn IsADirectoryError ''[Errno 21] Is a directory: results/sub''),
        \<lparr>tasks = [], path_artifact = ''artifacts/'', path_result = ''results/'',
         mgr_logged = [Info ''Loading task bad from disk'',
                       Error ''Error loading task bad from disk'',
                       Info ''Loading task sub from disk'']\<rparr>)
   \<and> fst (load_from_disk sample_lib sample_fresh (TaskManager_init ''artifacts/'' ''results/'')
        mixed_results) = None
   \<and> map fst (tasks (snd (load_from_disk sample_lib sample_fresh
        (TaskManager_init ''artifacts/'' ''results/'') mixed_results))) = [''b'']
   \<and> Error ''Error loading task bad from disk''
       \<in> set (mgr_logged (snd (load_from_disk sample_lib sample_fresh
            (TaskManager_init ''artifacts/'' ''results/'') mixed_results)))"
proof -
  let ?m = "TaskManager_init ''artifacts/'' ''results/''"
  have pr: "path_result ?m = ''results/''" and ts: "tasks ?m = []"
    by (simp_all add: TaskManager_init_def)
  have sb: "split_dot_first ''bad.json'' = ''bad''" and ss: "split_dot_first ''sub'' = ''sub''"
    and sg: "split_dot_first ''b.json'' = ''b''"
    by (simp_all add: split_dot_first_def)
  note w0 = C5_undecodable_records_skipped[of ?m "[]" sample_lib sample_fresh]
  note wn = C5_undecodable_records_skipped[of ?m nested_results sample_lib sample_fresh]
  note wm = C5_undecodable_records_skipped[of ?m mixed_results sample_lib sample_fresh]
  have l0: "listdir (path_result ?m) []
      = Inl (Exn FileNotFoundError ''[Errno 2] No such file or directory: results/'')"
    unfolding pr by (rule listdir_missing)
  have c1: "load_from_disk sample_lib sample_fresh ?m []
     = (Some (Exn FileNotFoundError ''[Errno 2] No such file or directory: results/''), ?m)"
    by (rule w0[THEN conjunct1, rule_format, OF l0])
  have h2: "listdir (path_result ?m) nested_results = Inr ([] @ ''bad.json'' # [''sub'', ''b.json''])
      \<and> (\<forall>h \<in> set []. \<forall>x. loaded sample_lib sample_fresh nested_results (path_result ?m) h = Inl x
              \<longrightarrow> exn_cls x = JSONDecodeError)
      \<and> loaded sample_lib sample_fresh nested_results (path_result ?m) ''bad.json''
          = Inl (Exn JSONDecodeError ''Expecting value'')
      \<and> exn_cls (Exn JSONDecodeError ''Expecting value'') = JSONDecodeError"
    unfolding pr by (simp add: listdir_nested_results nested_bad)
  have e0: "snd (load_entries sample_lib sample_fresh nested_results ?m []) = ?m"
    by simp
  have c2: "load_from_disk sample_lib sample_fresh ?m nested_results
     = load_entries sample_lib sample_fresh nested_results
         \<lparr>tasks = [], path_artifact = ''artifacts/'', path_result = ''results/'',
          mgr_logged = [Info ''Loading task bad from disk'',
                        Error ''Error loading task bad from disk'']\<rparr>
         [''sub'', ''b.json'']"
    using wn[THEN conjunct2, THEN conjunct1, rule_format, OF h2, THEN conjunct1]
    unfolding e0 sb by (simp add: TaskManager_init_def mgr_log_def)
  have h3: "listdir (path_result ?m) nested_results = Inr ([''bad.json''] @ ''sub'' # [''b.json''])
      \<and> (\<forall>h \<in> set [''bad.json'']. \<forall>x. loaded sample_lib sample_fresh nested_results (path_result ?m) h = Inl x
              \<longrightarrow> exn_cls x = JSONDecodeError)
      \<and> loaded sample_lib sample_fresh nested_results (path_result ?m) ''sub''
          = Inl (Exn IsADirectoryError ''[Errno 21] Is a directory: results/sub'')
      \<and> exn_cls (Exn IsADirectoryError ''[Errno 21] Is a directory: results/sub'') \<noteq> JSONDecodeError"
    unfolding pr by (simp add: listdir_nested_results nested_bad nested_sub)
  have c3: "load_from_disk sample_lib sample_fresh ?m nested_results
     = (Some (Exn IsADirectoryError ''[Errno 21] Is a directory: results/sub''),
        \<lparr>tasks = [], path_artifact = ''artifacts/'', path_result = ''results/'',
         mgr_logged = [Info ''Loading task bad from disk'',
                       Error ''Error loading task bad from disk'',
                       Info ''Loading task sub from disk'']\<rparr>)"
    using wn[THEN conjunct2, THEN conjunct2, THEN conjunct1, rule_format, OF h3, THEN conjunct1]
    unfolding scan_nested_bad ss by (simp add: mgr_log_def)
  have h4: "listdir (path_result ?m) mixed_results = Inr [''bad.json'', ''b.json'']
      \<and> (\<forall>g \<in> set [''bad.json'', ''b.json''].
             \<forall>e. loaded sample_lib sample_fresh mixed_results (path_result ?m) g = Inl e
               \<longrightarrow> exn_cls e = JSONDecodeError)"
    unfolding pr by (simp add: listdir_mixed_results mixed_bad mixed_good)
  note whole = wm[THEN conjunct2, THEN conjunct2, THEN conjunct2, rule_format, OF h4]
  have c4: "fst (load_from_disk sample_lib sample_fresh ?m mixed_results) = None"
    by (rule whole[THEN conjunct1])
  have r: "tasks (snd (load_from_disk sample_lib sample_fresh ?m mixed_results))
      = foldl (register sample_lib sample_fresh mixed_results (path_result ?m)) (tasks ?m)
          [''bad.json'', ''b.json'']"
    by (rule whole[THEN conjunct2, THEN conjunct1])
  have c5: "map fst (tasks (snd (load_from_disk sample_lib sample_fresh ?m mixed_results))) = [''b'']"
    unfolding r pr ts by (simp add: register_def mixed_bad mixed_good sg)
  have "isl (loaded sample_lib sample_fresh mixed_results (path_result ?m) ''bad.json'') \<longrightarrow>
      Error (''Error loading task '' @ split_dot_first ''bad.json'' @ '' from disk'')
        \<in> set (mgr_logged (snd (load_from_disk sample_lib sample_fresh ?m mixed_results)))"
    using whole[THEN conjunct2, THEN conjunct2, THEN conjunct2] by simp
  then have c6: "Error ''Error loading task bad from disk''
       \<in> set (mgr_logged (snd (load_from_disk sample_lib sample_fresh ?m mixed_results)))"
    unfolding pr sb by (simp add: mixed_bad)
  show ?thesis
    using c1 c2 c3 c4 c5 c6 by (intro conjI)
qed

end
